theory Spec2Isabelle
  imports Complex_Main "HOL-Library.AList"
begin

section \<open>Python values shared by the harvester's components\<close>

text \<open>
  Queue bodies, feed entries and task configurations are Python values obtained from
  \<^verbatim>\<open>json.loads\<close>, feedparser and DynamoDB. A dictionary is an association
  list in insertion order; \<open>AList.update\<close> replaces an existing key in place and
  appends a new one, as assignment to a Python \<^verbatim>\<open>dict\<close> does.
  Numbers with a fractional part are not represented.
\<close>

datatype json =
    JNull
  | JBool bool
  | JInt int
  | JStr string
  | JList "json list"
  | JObj "(string \<times> json) list"

type_synonym pydict = "(string \<times> json) list"

text \<open>\<^verbatim>\<open>d.get(k)\<close>: a missing key and a stored \<^verbatim>\<open>None\<close> both read as \<open>JNull\<close>.\<close>

definition dict_get :: "pydict \<Rightarrow> string \<Rightarrow> json" where
  "dict_get d k = (case map_of d k of None \<Rightarrow> JNull | Some v \<Rightarrow> v)"

text \<open>Python truth value of an object, as used by \<^verbatim>\<open>or\<close>, \<^verbatim>\<open>not\<close> and \<^verbatim>\<open>if\<close>.\<close>

fun truthy :: "json \<Rightarrow> bool" where
  "truthy JNull = False"
| "truthy (JBool b) = b"
| "truthy (JInt i) = (i \<noteq> 0)"
| "truthy (JStr s) = (s \<noteq> [])"
| "truthy (JList xs) = (xs \<noteq> [])"
| "truthy (JObj kv) = (kv \<noteq> [])"

text \<open>
  The exceptions that occur in the modelled code. \<^verbatim>\<open>CancelledError\<close> and
  \<^verbatim>\<open>KeyboardInterrupt\<close> derive from \<^verbatim>\<open>BaseException\<close> only, so a clause
  \<^verbatim>\<open>except Exception\<close> does not catch them; all others derive from \<^verbatim>\<open>Exception\<close>.
  \<open>ClientError\<close> stands for whatever a boto3 call raises, \<open>CrawlFailure\<close> for the
  plain \<^verbatim>\<open>Exception\<close> raised when a crawl fails or returns nothing.
\<close>

datatype pyexc =
    RetryableError
  | NonRetryableError
  | ValidationError
  | TypeError
  | RuntimeError
  | ClientError
  | CrawlFailure
  | CancelledError
  | KeyboardInterrupt

fun isinstance_Exception :: "pyexc \<Rightarrow> bool" where
  "isinstance_Exception CancelledError = False"
| "isinstance_Exception KeyboardInterrupt = False"
| "isinstance_Exception e = True"

text \<open>
  Library functions the code calls, as parameters: \<^verbatim>\<open>json.loads\<close> (\<open>None\<close> for
  \<^verbatim>\<open>JSONDecodeError\<close>), \<^verbatim>\<open>json.dumps\<close>, \<^verbatim>\<open>int\<close> on a string (\<open>None\<close> for
  \<^verbatim>\<open>ValueError\<close>), pydantic's check of an \<^verbatim>\<open>HttpUrl\<close> and the string it prints
  for an accepted one, pydantic's check of the optional fields \<^verbatim>\<open>tags\<close> and
  \<^verbatim>\<open>save_pdf\<close>, and \<^verbatim>\<open>hashlib.md5(s.encode()).hexdigest()\<close>.
\<close>

record pylib =
  json_loads :: "string \<Rightarrow> json option"
  json_dumps :: "json \<Rightarrow> string"
  int_of_str :: "string \<Rightarrow> int option"
  HttpUrl_valid :: "string \<Rightarrow> bool"
  HttpUrl_str :: "string \<Rightarrow> string"
  optional_fields_valid :: "json \<Rightarrow> json \<Rightarrow> bool"
  md5_hexdigest :: "string \<Rightarrow> string"

text \<open>The fields of \<^verbatim>\<open>harvester_settings\<close> that the modelled code reads (core/config.py).\<close>

record settings =
  crawl_save_location :: string
  s3_bucket_name :: string
  rss_track_processed_urls :: bool

text \<open>
  \<^verbatim>\<open>CrawlRequest.model_validate(body)\<close> (core/models.py): \<^verbatim>\<open>type\<close> is one of two
  literals, \<^verbatim>\<open>url\<close> an \<^verbatim>\<open>HttpUrl\<close>, \<^verbatim>\<open>id\<close> a string (the empty string
  included); \<^verbatim>\<open>tags\<close> and \<^verbatim>\<open>save_pdf\<close> are optional; other keys are ignored.
  \<open>False\<close> stands for pydantic's \<^verbatim>\<open>ValidationError\<close>.
\<close>

definition CrawlRequest_model_validate :: "pylib \<Rightarrow> json \<Rightarrow> bool" where
  "CrawlRequest_model_validate L body =
     (case body of
        JObj d \<Rightarrow>
          (case map_of d ''type'' of
             Some (JStr t) \<Rightarrow> t = ''crawl-single-url'' \<or> t = ''crawl-rss''
           | _ \<Rightarrow> False)
          \<and> (case map_of d ''url'' of Some (JStr u) \<Rightarrow> HttpUrl_valid L u | _ \<Rightarrow> False)
          \<and> (case map_of d ''id'' of Some (JStr i) \<Rightarrow> True | _ \<Rightarrow> False)
          \<and> optional_fields_valid L (dict_get d ''tags'') (dict_get d ''save_pdf'')
      | _ \<Rightarrow> False)"

section \<open>RSS scheduler: feed truncation (rss_processor.py)\<close>

text \<open>
  \<^verbatim>\<open>parse_rss_feed(feed_url, max_items)\<close>. The call \<^verbatim>\<open>feedparser.parse\<close> is the
  parameter \<open>feedparser_parse\<close>: \<open>Some entries\<close> is \<^verbatim>\<open>feed.entries\<close> in the
  parser's order, \<open>None\<close> stands for an exception, which the function turns
  into the empty list. \<^verbatim>\<open>items[:max_items]\<close> with a positive bound is \<open>take\<close>.
\<close>

definition parse_rss_feed ::
  "(string \<Rightarrow> 'item list option) \<Rightarrow> string \<Rightarrow> int option \<Rightarrow> 'item list" where
  "parse_rss_feed feedparser_parse feed_url max_items =
     (case feedparser_parse feed_url of
        None \<Rightarrow> []
      | Some entries \<Rightarrow>
          (case max_items of
             None \<Rightarrow> entries
           | Some n \<Rightarrow> if n > 0 then take (nat n) entries else entries))"

text \<open>
  Lines 301--312 of \<^verbatim>\<open>process_rss_feeds\<close>: \<^verbatim>\<open>max_items = config_data.get('max_items')\<close>,
  then \<^verbatim>\<open>int(max_items)\<close> unless it is \<^verbatim>\<open>None\<close>, with \<^verbatim>\<open>ValueError\<close> and
  \<^verbatim>\<open>TypeError\<close> mapped to \<^verbatim>\<open>None\<close>.
\<close>

definition max_items_of :: "(string \<Rightarrow> int option) \<Rightarrow> pydict \<Rightarrow> int option" where
  "max_items_of int_str config_data =
     (case dict_get config_data ''max_items'' of
        JNull \<Rightarrow> None
      | JBool b \<Rightarrow> Some (if b then 1 else 0)
      | JInt n \<Rightarrow> Some n
      | JStr s \<Rightarrow> int_str s
      | JList xs \<Rightarrow> None
      | JObj kv \<Rightarrow> None)"

text \<open>The items that \<^verbatim>\<open>process_rss_feeds\<close> obtains for a task whose feed URL is set.\<close>

definition feed_items ::
  "(string \<Rightarrow> int option) \<Rightarrow> (string \<Rightarrow> 'item list option) \<Rightarrow> pydict \<Rightarrow> string \<Rightarrow> 'item list" where
  "feed_items int_str feedparser_parse config_data feed_url =
     parse_rss_feed feedparser_parse feed_url (max_items_of int_str config_data)"

section \<open>Credential refresher (bedrock_token.py)\<close>








section \<open>Queue consumer: message processing (message_processor.py)\<close>

text \<open>
  A received SQS message. \<open>Attributes\<close> and \<open>MessageAttributes\<close> are \<open>None\<close>
  when the provider's response has no such key.
\<close>

record message =
  MessageId :: string
  ReceiptHandle :: string
  Body :: string
  Attributes :: "(string \<times> string) list option"
  MessageAttributes :: "pydict option"

text \<open>
  A delay is the integer \<open>PyInt n\<close>, or the float \<open>2.0 ** k\<close> for a negative
  \<open>k\<close>, which is what \<^verbatim>\<open>2 ** k\<close> evaluates to in Python.
\<close>

datatype pynum = PyInt int | PyFloatPow2 int

text \<open>
  Members of the idempotency set. Python compares \<^verbatim>\<open>True\<close> equal to \<open>1\<close> and
  hashes them alike; lists and dictionaries are unhashable.
\<close>

datatype key = KStr string | KInt int

fun hash_key :: "json \<Rightarrow> key option" where
  "hash_key (JStr s) = Some (KStr s)"
| "hash_key (JInt i) = Some (KInt i)"
| "hash_key (JBool b) = Some (KInt (if b then 1 else 0))"
| "hash_key JNull = None"
| "hash_key (JList xs) = None"
| "hash_key (JObj kv) = None"

text \<open>
  What one call of \<^verbatim>\<open>process_message\<close> does to the outside, in order: the handler
  invoked for a key, and the calls issued to the queue helper (recorded whether or
  not the call then raises).
\<close>

datatype event =
    Handled key
  | DeleteMessage string
  | SendMessage string pydict pynum
  | ChangeMessageVisibility string pynum

text \<open>
  How the outside behaves during one delivery: whether \<^verbatim>\<open>set_app\<close> has run, what
  \<^verbatim>\<open>crawl_urls(url, save_location)\<close> returns or raises, and which helper calls raise.
\<close>

record world =
  app_set :: bool
  crawl_urls_result :: "string \<Rightarrow> string \<Rightarrow> pyexc + string list"
  delete_raises :: bool
  send_raises :: bool
  visibility_raises :: bool

text \<open>Line 69: \<^verbatim>\<open>body.get("id") or body.get("event_id") or msg["MessageId"]\<close>.\<close>

definition envelope_key :: "pydict \<Rightarrow> message \<Rightarrow> json" where
  "envelope_key body msg =
     (if truthy (dict_get body ''id'') then dict_get body ''id''
      else if truthy (dict_get body ''event_id'') then dict_get body ''event_id''
      else JStr (MessageId msg))"

text \<open>\<^verbatim>\<open>IdempotencyStore.claim\<close>: the answer and the updated set \<^verbatim>\<open>_seen\<close>.\<close>

definition claim :: "key \<Rightarrow> key set \<Rightarrow> bool \<times> key set" where
  "claim event_id seen = (if event_id \<in> seen then (False, seen) else (True, insert event_id seen))"

text \<open>
  \<^verbatim>\<open>get_receive_count\<close>: \<^verbatim>\<open>int(msg.get("Attributes", {}).get("ApproximateReceiveCount", "1"))\<close>,
  and 1 on any exception.
\<close>

definition get_receive_count :: "pylib \<Rightarrow> message \<Rightarrow> int" where
  "get_receive_count L msg =
     (case Attributes msg of
        None \<Rightarrow> 1
      | Some attrs \<Rightarrow>
          (case map_of attrs ''ApproximateReceiveCount'' of
             None \<Rightarrow> 1
           | Some s \<Rightarrow> (case int_of_str L s of None \<Rightarrow> 1 | Some n \<Rightarrow> n)))"

text \<open>\<^verbatim>\<open>compute_backoff_seconds\<close>: \<^verbatim>\<open>min(900, 2 ** min(receive_count, 8))\<close>.\<close>

definition compute_backoff_seconds :: "int \<Rightarrow> pynum" where
  "compute_backoff_seconds receive_count =
     (let k = min receive_count 8
      in if k < 0 then PyFloatPow2 k else PyInt (min 900 (2 ^ nat k)))"

text \<open>
  The \<^verbatim>\<open>try\<close> body of \<^verbatim>\<open>handle_crawl_single_url\<close>: validation, \<^verbatim>\<open>get_app()\<close>, the
  call \<^verbatim>\<open>crawl_urls(str(crawl_task.url), f"{crawl_save_location}/{crawl_task.id}")\<close>
  under the gate, and the exception for an empty result. \<open>None\<close>: it completed.
\<close>

definition crawl_attempt :: "pylib \<Rightarrow> settings \<Rightarrow> world \<Rightarrow> pydict \<Rightarrow> pyexc option" where
  "crawl_attempt L cfg w payload =
     (if \<not> CrawlRequest_model_validate L (JObj payload) then Some ValidationError
      else if \<not> app_set w then Some RuntimeError
      else (case (dict_get payload ''url'', dict_get payload ''id'') of
              (JStr u, JStr i) \<Rightarrow>
                (case crawl_urls_result w (HttpUrl_str L u) (crawl_save_location cfg @ ''/'' @ i) of
                   Inl e \<Rightarrow> Some e
                 | Inr results \<Rightarrow> if results = [] then Some CrawlFailure else None)
            | _ \<Rightarrow> Some ValidationError))"

text \<open>
  \<^verbatim>\<open>payload.get("retry_count", 0)\<close> as the integer the comparison \<^verbatim>\<open>retry_count < 1\<close>
  sees; \<open>None\<close> when the stored value makes that comparison raise \<^verbatim>\<open>TypeError\<close>.
\<close>

definition retry_count_of :: "pydict \<Rightarrow> int option" where
  "retry_count_of payload =
     (case map_of payload ''retry_count'' of
        None \<Rightarrow> Some 0
      | Some (JInt n) \<Rightarrow> Some n
      | Some (JBool b) \<Rightarrow> Some (if b then 1 else 0)
      | Some _ \<Rightarrow> None)"

text \<open>
  \<^verbatim>\<open>handle_crawl_single_url(payload)\<close>: the exception it raises, if any, and the
  payload dictionary afterwards (the handler mutates it in place).
\<close>

definition handle_crawl_single_url ::
  "pylib \<Rightarrow> settings \<Rightarrow> world \<Rightarrow> pydict \<Rightarrow> pyexc option \<times> pydict" where
  "handle_crawl_single_url L cfg w payload =
     (case crawl_attempt L cfg w payload of
        None \<Rightarrow> (None, payload)
      | Some e \<Rightarrow>
          if \<not> isinstance_Exception e then (Some e, payload)
          else
            (case retry_count_of payload of
               None \<Rightarrow> (Some TypeError, payload)
             | Some retry_count \<Rightarrow>
                 if retry_count < 1
                 then (Some RetryableError,
                       AList.update ''retry'' (JBool True)
                         (AList.update ''retry_count'' (JInt (retry_count + 1)) payload))
                 else (Some NonRetryableError, payload)))"

text \<open>Line 113, the fallback of the retry path.\<close>

definition fall_back :: "world \<Rightarrow> message \<Rightarrow> pynum \<Rightarrow> pyexc option \<times> event list" where
  "fall_back w msg delay =
     (if visibility_raises w then Some ClientError else None,
      [ChangeMessageVisibility (ReceiptHandle msg) delay])"

text \<open>Lines 87--113: the clause \<^verbatim>\<open>except RetryableError\<close>.\<close>

definition requeue :: "pylib \<Rightarrow> world \<Rightarrow> message \<Rightarrow> pydict \<Rightarrow> pyexc option \<times> event list" where
  "requeue L w msg body =
     (let updated_body = json_dumps L (JObj body);
          rc = get_receive_count L msg;
          delay = compute_backoff_seconds rc;
          del = DeleteMessage (ReceiptHandle msg);
          resend = SendMessage updated_body
                     (case MessageAttributes msg of None \<Rightarrow> [] | Some a \<Rightarrow> a) delay
      in if delete_raises w
         then (case fall_back w msg delay of (r, evs) \<Rightarrow> (r, del # evs))
         else if send_raises w
         then (case fall_back w msg delay of (r, evs) \<Rightarrow> (r, del # resend # evs))
         else (None, [del, resend]))"

text \<open>Lines 83--115: the handler call with its three outcomes.\<close>

definition dispatch ::
  "pylib \<Rightarrow> settings \<Rightarrow> world \<Rightarrow> message \<Rightarrow> key \<Rightarrow> pydict \<Rightarrow> pyexc option \<times> event list" where
  "dispatch L cfg w msg event_id body =
     (case handle_crawl_single_url L cfg w body of
        (None, body') \<Rightarrow>
          (if delete_raises w then Some ClientError else None,
           [Handled event_id, DeleteMessage (ReceiptHandle msg)])
      | (Some RetryableError, body') \<Rightarrow>
          (case requeue L w msg body' of (r, evs) \<Rightarrow> (r, Handled event_id # evs))
      | (Some NonRetryableError, body') \<Rightarrow> (None, [Handled event_id])
      | (Some e, body') \<Rightarrow> (Some e, [Handled event_id]))"

text \<open>
  \<^verbatim>\<open>process_message(msg)\<close>: the exception that leaves it, if any, the idempotency
  set afterwards and the events. \<^verbatim>\<open>parse_message\<close> raises \<^verbatim>\<open>NonRetryableError\<close> on
  invalid JSON, which is caught and makes the function return; pydantic's
  \<^verbatim>\<open>ValidationError\<close> is not caught here.
\<close>

definition process_message ::
  "pylib \<Rightarrow> settings \<Rightarrow> world \<Rightarrow> message \<Rightarrow> key set \<Rightarrow> pyexc option \<times> key set \<times> event list" where
  "process_message L cfg w msg seen =
     (case json_loads L (Body msg) of
        None \<Rightarrow> (None, seen, [])
      | Some parsed \<Rightarrow>
          if \<not> CrawlRequest_model_validate L parsed then (Some ValidationError, seen, [])
          else
            (case parsed of
               JObj body \<Rightarrow>
                 (case hash_key (envelope_key body msg) of
                    None \<Rightarrow> (Some TypeError, seen, [])
                  | Some event_id \<Rightarrow>
                      (case claim event_id seen of
                         (False, seen') \<Rightarrow>
                           (if delete_raises w then Some ClientError else None, seen',
                            [DeleteMessage (ReceiptHandle msg)])
                       | (True, seen') \<Rightarrow>
                           if dict_get body ''type'' \<noteq> JStr ''crawl-single-url''
                           then (Some NonRetryableError, seen', [])
                           else (case dispatch L cfg w msg event_id body of
                                   (r, evs) \<Rightarrow> (r, seen', evs))))
             | _ \<Rightarrow> (Some ValidationError, seen, [])))"

text \<open>
  A process lifetime: the deliveries in the order in which their \<^verbatim>\<open>claim\<close> calls
  run. \<^verbatim>\<open>claim\<close> contains no \<^verbatim>\<open>await\<close>, and nothing else writes the set, so the
  set each delivery sees is the one left by the deliveries that claimed before it.
\<close>

fun consume ::
  "pylib \<Rightarrow> settings \<Rightarrow> (world \<times> message) list \<Rightarrow> key set \<Rightarrow> key set \<times> event list" where
  "consume L cfg [] seen = (seen, [])"
| "consume L cfg ((w, msg) # rest) seen =
     (case process_message L cfg w msg seen of
        (r, seen', evs) \<Rightarrow>
          (case consume L cfg rest seen' of (seen'', evs') \<Rightarrow> (seen'', evs @ evs')))"

fun is_send :: "event \<Rightarrow> bool" where
  "is_send (SendMessage b a d) = True"
| "is_send e = False"

text \<open>
  The messages a delivery puts on the queue: its \<^verbatim>\<open>send_message\<close> calls, unless the
  call raises (the trace records a call when it is issued).
\<close>

definition emitted :: "world \<Rightarrow> event list \<Rightarrow> event list" where
  "emitted w evs = (if send_raises w then [] else filter is_send evs)"

section \<open>Queue consumer: dispatch loop (sqs_consumer.py) and the extraction gate\<close>

record consumer_cfg =
  concurrency :: nat
  heartbeat_every :: "int option"
  visibility_timeout :: "int option"

text \<open>
  The heartbeat task when the handler has finished: still sleeping or calling
  (\<open>HbPending\<close>), or ended by an exception of \<^verbatim>\<open>change_message_visibility\<close>.
\<close>

datatype heartbeat = HbPending | HbFailed pyexc

text \<open>Line 84: \<^verbatim>\<open>if self.heartbeat_every and self.visibility_timeout\<close>.\<close>

definition heartbeat_started :: "consumer_cfg \<Rightarrow> bool" where
  "heartbeat_started c =
     ((case heartbeat_every c of None \<Rightarrow> False | Some h \<Rightarrow> h \<noteq> 0)
      \<and> (case visibility_timeout c of None \<Rightarrow> False | Some v \<Rightarrow> v \<noteq> 0))"

text \<open>
  \<^verbatim>\<open>SQSConsumer._handle_message\<close>, given how \<^verbatim>\<open>process_func\<close> ended and the value of
  \<^verbatim>\<open>_sem\<close>: the exception that leaves the method, if any, and the value of \<^verbatim>\<open>_sem\<close>
  afterwards. In the inner \<^verbatim>\<open>finally\<close> a pending heartbeat is cancelled and its
  \<^verbatim>\<open>CancelledError\<close> swallowed; awaiting a failed one raises its exception, which
  replaces the handler's. \<^verbatim>\<open>except Exception\<close> then logs, and the outer
  \<^verbatim>\<open>finally\<close> releases.
\<close>

definition handle_message ::
  "consumer_cfg \<Rightarrow> heartbeat \<Rightarrow> pyexc option \<Rightarrow> nat \<Rightarrow> pyexc option \<times> nat" where
  "handle_message c hb outcome sem_value =
     (let after_inner =
            (if heartbeat_started c
             then (case hb of
                     HbPending \<Rightarrow> outcome
                   | HbFailed e \<Rightarrow> if e = CancelledError then outcome else Some e)
             else outcome);
          escaped =
            (case after_inner of
               None \<Rightarrow> None
             | Some e \<Rightarrow> if isinstance_Exception e then None else Some e)
      in (escaped, sem_value + 1))"

text \<open>
  The tasks the receive loop has created. A task is \<open>Dispatched\<close> until it enters
  \<^verbatim>\<open>async with crawl_semaphore\<close>, \<open>Extracting\<close> inside it (where \<^verbatim>\<open>crawl_urls\<close>
  runs), \<open>Leaving\<close> after it, and \<open>Finished\<close> once \<^verbatim>\<open>_handle_message\<close> has
  released its slot. A task that never calls the crawl handler finishes from
  \<open>Dispatched\<close>.
\<close>

datatype phase = Dispatched | Extracting | Leaving | Finished

record loop_state =
  sem :: nat
  crawl_semaphore :: nat
  tasks :: "phase list"

text \<open>
  The scheduler's choices. An \<^verbatim>\<open>asyncio.Semaphore\<close> lets \<^verbatim>\<open>acquire\<close> proceed only
  while its value is positive and decrements it; \<^verbatim>\<open>release\<close> increments it. A
  choice that is not enabled leaves the state as it is (the task stays blocked).
\<close>

datatype sched =
    Dispatch
  | EnterGate nat
  | LeaveGate nat
  | Finish nat heartbeat "pyexc option"

fun step :: "consumer_cfg \<Rightarrow> loop_state \<Rightarrow> sched \<Rightarrow> loop_state" where
  "step c s Dispatch =
     (if sem s > 0 then s\<lparr>sem := sem s - 1, tasks := tasks s @ [Dispatched]\<rparr> else s)"
| "step c s (EnterGate i) =
     (if i < length (tasks s) \<and> tasks s ! i = Dispatched \<and> crawl_semaphore s > 0
      then s\<lparr>crawl_semaphore := crawl_semaphore s - 1, tasks := (tasks s)[i := Extracting]\<rparr>
      else s)"
| "step c s (LeaveGate i) =
     (if i < length (tasks s) \<and> tasks s ! i = Extracting
      then s\<lparr>crawl_semaphore := crawl_semaphore s + 1, tasks := (tasks s)[i := Leaving]\<rparr>
      else s)"
| "step c s (Finish i hb outcome) =
     (if i < length (tasks s) \<and> (tasks s ! i = Dispatched \<or> tasks s ! i = Leaving)
      then s\<lparr>sem := snd (handle_message c hb outcome (sem s)), tasks := (tasks s)[i := Finished]\<rparr>
      else s)"

text \<open>
  \<^verbatim>\<open>_sem = asyncio.Semaphore(concurrency)\<close> and \<^verbatim>\<open>crawl_semaphore = asyncio.Semaphore(1)\<close>.
\<close>

definition initial :: "consumer_cfg \<Rightarrow> loop_state" where
  "initial c = \<lparr>sem = concurrency c, crawl_semaphore = 1, tasks = []\<rparr>"

definition run_schedule :: "consumer_cfg \<Rightarrow> sched list \<Rightarrow> loop_state" where
  "run_schedule c evs = foldl (step c) (initial c) evs"

definition extracting :: "loop_state \<Rightarrow> nat" where
  "extracting s = length (filter (\<lambda>p. p = Extracting) (tasks s))"

definition in_flight :: "loop_state \<Rightarrow> nat" where
  "in_flight s = length (filter (\<lambda>p. p \<noteq> Finished) (tasks s))"

section \<open>Crawl outputs (crawler.py)\<close>

text \<open>
  \<^verbatim>\<open>str(n)\<close> and the format \<^verbatim>\<open>{n:02d}\<close> for a non-negative integer; the fields of
  \<^verbatim>\<open>datetime.now()\<close> are such.
\<close>

definition digit :: "nat \<Rightarrow> char" where
  "digit d = ''0123456789'' ! d"

fun str_nat :: "nat \<Rightarrow> string" where
  "str_nat n = (if n < 10 then [digit n] else str_nat (n div 10) @ [digit (n mod 10)])"

declare str_nat.simps [simp del]

definition fmt_02d :: "nat \<Rightarrow> string" where
  "fmt_02d n = replicate (2 - length (str_nat n)) CHR ''0'' @ str_nat n"

record date =
  year :: nat
  month :: nat
  day :: nat

text \<open>
  \<^verbatim>\<open>pathlib.Path\<close> on a POSIX system: a path is a root and the components that are
  neither empty nor a single dot; \<^verbatim>\<open>p / s\<close> restarts from \<open>s\<close> when \<open>s\<close> is
  absolute; \<^verbatim>\<open>str\<close> joins the components with slashes. \<open>split_on\<close> and \<open>join_on\<close>
  are \<^verbatim>\<open>str.split\<close> and \<^verbatim>\<open>str.join\<close>.
\<close>

fun split_on :: "char \<Rightarrow> string \<Rightarrow> string list" where
  "split_on c [] = [[]]"
| "split_on c (x # xs) =
     (if x = c then [] # split_on c xs
      else (case split_on c xs of [] \<Rightarrow> [[x]] | w # ws \<Rightarrow> (x # w) # ws))"

fun join_on :: "string \<Rightarrow> string list \<Rightarrow> string" where
  "join_on sep [] = []"
| "join_on sep [p] = p"
| "join_on sep (p # q # ps) = p @ sep @ join_on sep (q # ps)"

record path =
  root :: string
  parts :: "string list"

definition Path :: "string \<Rightarrow> path" where
  "Path s = \<lparr> root = (if take 2 s = ''//'' \<and> take 3 s \<noteq> ''///'' then ''//''
                      else if take 1 s = ''/'' then ''/'' else []),
              parts = filter (\<lambda>p. p \<noteq> [] \<and> p \<noteq> ''.'') (split_on CHR ''/'' s) \<rparr>"

definition joinpath :: "path \<Rightarrow> string \<Rightarrow> path" where
  "joinpath p s =
     (if root (Path s) \<noteq> [] then Path s
      else \<lparr> root = root p, parts = parts p @ parts (Path s) \<rparr>)"

definition path_str :: "path \<Rightarrow> string" where
  "path_str p = (if root p = [] \<and> parts p = [] then ''.'' else root p @ join_on ''/'' (parts p))"

text \<open>Line 191: \<^verbatim>\<open>hashlib.md5(url.encode()).hexdigest()[-8:]\<close>.\<close>

definition url_hash8 :: "pylib \<Rightarrow> string \<Rightarrow> string" where
  "url_hash8 L u = (let h = md5_hexdigest L u in drop (length h - 8) h)"

text \<open>Line 194: \<^verbatim>\<open>f"{today.year}/{today.month:02d}/{today.day:02d}/{url_hash}"\<close>.\<close>

definition relative_path :: "pylib \<Rightarrow> date \<Rightarrow> string \<Rightarrow> string" where
  "relative_path L today u =
     str_nat (year today) @ ''/'' @ fmt_02d (month today) @ ''/'' @ fmt_02d (day today)
       @ ''/'' @ url_hash8 L u"

text \<open>
  Lines 197--200: \<^verbatim>\<open>Path(save_location) / relative_path\<close> when a save location is
  given and not empty, else \<^verbatim>\<open>Path(relative_path)\<close>.
\<close>

definition save_dir :: "pylib \<Rightarrow> date \<Rightarrow> string option \<Rightarrow> string \<Rightarrow> path" where
  "save_dir L today save_location u =
     (case save_location of
        None \<Rightarrow> Path (relative_path L today u)
      | Some sl \<Rightarrow> if sl = [] then Path (relative_path L today u)
                   else joinpath (Path sl) (relative_path L today u))"

text \<open>The object key \<^verbatim>\<open>f"{save_location}/{relative_path}/{name}"\<close>; \<^verbatim>\<open>None\<close> prints as such.\<close>

definition s3_key :: "pylib \<Rightarrow> date \<Rightarrow> string option \<Rightarrow> string \<Rightarrow> string \<Rightarrow> string" where
  "s3_key L today save_location u name =
     (case save_location of None \<Rightarrow> ''None'' | Some sl \<Rightarrow> sl)
       @ ''/'' @ relative_path L today u @ ''/'' @ name"

definition local_file :: "pylib \<Rightarrow> date \<Rightarrow> string option \<Rightarrow> string \<Rightarrow> string \<Rightarrow> string" where
  "local_file L today save_location u name =
     path_str (joinpath (save_dir L today save_location u) name)"

text \<open>
  What the extractor returned for the URL: \<^verbatim>\<open>result.success\<close>,
  \<^verbatim>\<open>result.extracted_content\<close>, and whether \<^verbatim>\<open>result.pdf\<close> is non-empty.
\<close>

record crawl_result =
  success :: bool
  extracted_content :: string
  pdf :: bool

datatype artifact = LocalFile string | S3Object string

text \<open>
  Line 252 evaluates \<^verbatim>\<open>body_content[:100]\<close> before the value is converted to a
  string: a string or a list can be sliced, any other value raises.
\<close>

fun sliceable :: "json \<Rightarrow> bool" where
  "sliceable (JStr s) = True"
| "sliceable (JList xs) = True"
| "sliceable v = False"

text \<open>
  Lines 205--308 for one successful result: the files opened for writing and the
  object keys passed to the upload, in order. The article is the first element
  when the extracted JSON is a non-empty list. \<^verbatim>\<open>article.txt\<close> is opened before the
  body is looked at. Anything that raises while the article is processed (an
  article that is not a dictionary, a truthy body that cannot be sliced) skips
  the rest of the \<^verbatim>\<open>try\<close> body, so \<^verbatim>\<open>article.txt\<close> is not uploaded, and leads to
  the file \<^verbatim>\<open>raw_extracted.txt\<close>. A body that is absent or falsy is only reported.
  Failures of the file system are not represented.
\<close>

definition crawl_outputs ::
  "pylib \<Rightarrow> settings \<Rightarrow> date \<Rightarrow> string option \<Rightarrow> string \<Rightarrow> crawl_result \<Rightarrow> artifact list" where
  "crawl_outputs L cfg today save_location u r =
     (let loc = (\<lambda>name. [LocalFile (local_file L today save_location u name)]);
          s3 = (\<lambda>name. if s3_bucket_name cfg \<noteq> []
                         then [S3Object (s3_key L today save_location u name)] else [])
      in (case json_loads L (extracted_content r) of
            None \<Rightarrow> loc ''raw_extracted.txt''
          | Some extracted_data \<Rightarrow>
              loc ''article.json'' @ s3 ''article.json'' @ loc ''article.txt'' @
              (case (case extracted_data of JList (x # xs) \<Rightarrow> x | _ \<Rightarrow> extracted_data) of
                 JObj article \<Rightarrow>
                   if truthy (dict_get article ''body'')
                   then (if sliceable (dict_get article ''body'')
                         then s3 ''article.txt'' else loc ''raw_extracted.txt'')
                   else []
               | _ \<Rightarrow> loc ''raw_extracted.txt''))
         @ (if pdf r then loc ''article.pdf'' @ s3 ''article.pdf'' else []))"

text \<open>
  \<^verbatim>\<open>crawl_urls\<close> called with a single URL: it raises when the result is not a
  success, and otherwise returns the list holding \<^verbatim>\<open>str(save_dir)\<close>.
\<close>

definition crawl_urls ::
  "pylib \<Rightarrow> date \<Rightarrow> crawl_result \<Rightarrow> string \<Rightarrow> string option \<Rightarrow> pyexc + string list" where
  "crawl_urls L today r u save_location =
     (if \<not> success r then Inl CrawlFailure
      else Inr [path_str (save_dir L today save_location u)])"

definition hexdigest_wf :: "string \<Rightarrow> bool" where
  "hexdigest_wf h = (length h = 32 \<and> list_all (\<lambda>c. c \<in> set ''0123456789abcdef'') h)"

text \<open>
  What \<^verbatim>\<open>handle_crawl_single_url\<close> (message_processor.py, lines 140--156) makes the
  crawler write for a payload: the payload is validated, \<^verbatim>\<open>get_app()\<close> raises when
  no app is set, and \<^verbatim>\<open>crawl_urls\<close> is called with \<^verbatim>\<open>str(crawl_task.url)\<close> and the
  save location \<^verbatim>\<open>f"{crawl_save_location}/{crawl_task.id}"\<close>; the crawler writes
  nothing for a result that is not a success.
\<close>

definition handle_crawl_single_url_outputs ::
  "pylib \<Rightarrow> settings \<Rightarrow> world \<Rightarrow> date \<Rightarrow> crawl_result \<Rightarrow> pydict \<Rightarrow> artifact list" where
  "handle_crawl_single_url_outputs L cfg w today r payload =
     (if \<not> CrawlRequest_model_validate L (JObj payload) \<or> \<not> app_set w then []
      else (case (dict_get payload ''url'', dict_get payload ''id'') of
              (JStr u, JStr i) \<Rightarrow>
                if success r
                then crawl_outputs L cfg today (Some (crawl_save_location cfg @ ''/'' @ i))
                       (HttpUrl_str L u) r
                else []
            | _ \<Rightarrow> []))"
section \<open>RSS scheduler: submission with processed-URL markers (rss_processor.py)\<close>

text \<open>
  A row of the task table as the scan returns it, with the attributes the
  PynamoDB model \<^verbatim>\<open>HarvesterConfigTask\<close> declares: the hash key \<^verbatim>\<open>task_id\<close>, the
  list \<^verbatim>\<open>tags\<close>, and \<^verbatim>\<open>config_data\<close>, which arrives as a JSON string or as a
  dictionary. Rows have no attribute \<^verbatim>\<open>id\<close>, so
  \<^verbatim>\<open>task.get('task_id', '') or task.get('id', '')\<close> is the \<^verbatim>\<open>task_id\<close>.
\<close>

record task_row =
  task_id :: string
  tags :: "string list"
  config_data :: json

text \<open>
  The processed-URL table (\<^verbatim>\<open>ProcessedRSSItem\<close>): items keyed by
  \<^verbatim>\<open>(task_id, url_hash)\<close> and holding the URL; \<open>None\<close> while the table does not
  exist. Saving an item replaces the one with the same key. Expiry by TTL is not
  represented: the model covers one TTL window. The queue lists the messages
  sent successfully, each as its message attribute \<^verbatim>\<open>TaskId\<close>, the link it was built
  from and the fields of its \<^verbatim>\<open>CrawlRequest\<close>.
\<close>

type_synonym marker_table = "((string \<times> string) \<times> string) list"

record rss_state =
  processed_table :: "marker_table option"
  queue :: "(string \<times> string \<times> pydict) list"

text \<open>
  How the outside behaves during one run: whether reading the markers raises, and
  for which URLs \<^verbatim>\<open>send_message\<close> and the marker's \<^verbatim>\<open>save\<close> raise.
\<close>

record rss_world =
  query_raises :: bool
  send_fails :: "string \<Rightarrow> bool"
  save_fails :: "string \<Rightarrow> bool"

definition tbl_of :: "rss_state \<Rightarrow> marker_table" where
  "tbl_of st = (case processed_table st of None \<Rightarrow> [] | Some t \<Rightarrow> t)"

definition marked :: "marker_table \<Rightarrow> string \<Rightarrow> string set" where
  "marked tbl tid = set (map snd (filter (\<lambda>e. fst (fst e) = tid) tbl))"

text \<open>
  \<^verbatim>\<open>get_processed_urls(task_id)\<close>: creates the table when it does not exist; any
  exception yields the empty set.
\<close>

definition get_processed_urls :: "rss_world \<Rightarrow> string \<Rightarrow> rss_state \<Rightarrow> string set \<times> rss_state" where
  "get_processed_urls w tid st =
     (if query_raises w then ({}, st)
      else (case processed_table st of
              None \<Rightarrow> ({}, st\<lparr>processed_table := Some []\<rparr>)
            | Some tbl \<Rightarrow> (marked tbl tid, st)))"

text \<open>
  \<^verbatim>\<open>mark_url_as_processed(task_id, url)\<close>: saves the item with
  \<^verbatim>\<open>url_hash = hashlib.md5(url.encode()).hexdigest()\<close>; an exception (also that of a
  missing table) is swallowed, and the caller ignores the returned flag.
\<close>

definition mark_url_as_processed :: "pylib \<Rightarrow> rss_world \<Rightarrow> string \<Rightarrow> string \<Rightarrow> rss_state \<Rightarrow> rss_state" where
  "mark_url_as_processed L w tid u st =
     (if save_fails w u then st
      else (case processed_table st of
              None \<Rightarrow> st
            | Some tbl \<Rightarrow> st\<lparr>processed_table := Some (AList.update (tid, md5_hexdigest L u) u tbl)\<rparr>))"

text \<open>Lines 176--182 and 291--297: \<^verbatim>\<open>config_data\<close>, decoded when it is a string.\<close>

definition config_of :: "pylib \<Rightarrow> task_row \<Rightarrow> json" where
  "config_of L t =
     (case config_data t of
        JStr s \<Rightarrow> (case json_loads L s of None \<Rightarrow> JObj [] | Some v \<Rightarrow> v)
      | v \<Rightarrow> v)"

text \<open>Line 185: \<^verbatim>\<open>config_data.get('item_link_field', 'link')\<close>.\<close>

definition link_field_of :: "pydict \<Rightarrow> json" where
  "link_field_of c = (case map_of c ''item_link_field'' of None \<Rightarrow> JStr ''link'' | Some v \<Rightarrow> v)"

text \<open>
  Line 201: \<^verbatim>\<open>item.get(link_field)\<close> on a feed entry read as a dictionary with
  string keys. \<open>None\<close> stands for the \<^verbatim>\<open>TypeError\<close> of an unhashable key.
\<close>

definition item_get :: "pydict \<Rightarrow> json \<Rightarrow> json option" where
  "item_get item f =
     (case f of
        JStr k \<Rightarrow> Some (dict_get item k)
      | JList xs \<Rightarrow> None
      | JObj kv \<Rightarrow> None
      | _ \<Rightarrow> Some JNull)"

text \<open>Lines 212--222: the keyword arguments of \<^verbatim>\<open>CrawlRequest(...)\<close> for a link.\<close>

definition crawl_request_fields :: "pylib \<Rightarrow> task_row \<Rightarrow> pydict \<Rightarrow> string \<Rightarrow> pydict" where
  "crawl_request_fields L t c u =
     [(''type'', JStr ''crawl-single-url''),
      (''url'', JStr u),
      (''id'', JStr (task_id t @ ''-'' @ url_hash8 L u)),
      (''tags'', JList (map JStr (tags t))),
      (''save_pdf'', (case map_of c ''save_pdf'' of None \<Rightarrow> JBool True | Some v \<Rightarrow> v))]"

text \<open>
  Lines 199--254, the loop over the items, with the set of processed URLs read
  before the loop. The result is: whether an exception left the loop (it is caught
  at line 259, where the function returns 0), the count and the state. A link that
  is not a string raises when it is hashed or encoded; a \<^verbatim>\<open>CrawlRequest\<close> that
  does not validate raises outside the inner \<^verbatim>\<open>try\<close>; a failing send is caught
  inside it and the loop goes on.
\<close>

fun submit_items ::
  "pylib \<Rightarrow> settings \<Rightarrow> rss_world \<Rightarrow> task_row \<Rightarrow> pydict \<Rightarrow> string set \<Rightarrow> pydict list
     \<Rightarrow> nat \<times> rss_state \<Rightarrow> bool \<times> nat \<times> rss_state" where
  "submit_items L cfg w t c processed_urls [] (queued_count, st) = (False, queued_count, st)"
| "submit_items L cfg w t c processed_urls (item # rest) (queued_count, st) =
     (case item_get item (link_field_of c) of
        None \<Rightarrow> (True, queued_count, st)
      | Some v \<Rightarrow>
          if \<not> truthy v then submit_items L cfg w t c processed_urls rest (queued_count, st)
          else
            (case v of
               JStr u \<Rightarrow>
                 if rss_track_processed_urls cfg \<and> u \<in> processed_urls
                 then submit_items L cfg w t c processed_urls rest (queued_count, st)
                 else if \<not> CrawlRequest_model_validate L (JObj (crawl_request_fields L t c u))
                 then (True, queued_count, st)
                 else if send_fails w u
                 then submit_items L cfg w t c processed_urls rest (queued_count, st)
                 else submit_items L cfg w t c processed_urls rest
                        (queued_count + 1,
                         (if rss_track_processed_urls cfg
                          then mark_url_as_processed L w (task_id t) u
                                 (st\<lparr>queue := queue st @ [(task_id t, u, crawl_request_fields L t c u)]\<rparr>)
                          else st\<lparr>queue := queue st @ [(task_id t, u, crawl_request_fields L t c u)]\<rparr>))
             | _ \<Rightarrow> (True, queued_count, st)))"

text \<open>\<^verbatim>\<open>submit_rss_items_to_queue(sqs_helper, queue_url, task, items)\<close>.\<close>

definition submit_rss_items_to_queue ::
  "pylib \<Rightarrow> settings \<Rightarrow> rss_world \<Rightarrow> task_row \<Rightarrow> pydict list \<Rightarrow> rss_state \<Rightarrow> nat \<times> rss_state" where
  "submit_rss_items_to_queue L cfg w t items st =
     (case config_of L t of
        JObj c \<Rightarrow>
          (case (if rss_track_processed_urls cfg then get_processed_urls w (task_id t) st
                 else ({}, st)) of
             (processed_urls, st1) \<Rightarrow>
               (case submit_items L cfg w t c processed_urls items (0, st1) of
                  (raised, queued_count, st2) \<Rightarrow> (if raised then 0 else queued_count, st2)))
      | _ \<Rightarrow> (0, st))"

text \<open>
  Lines 290--338 of \<^verbatim>\<open>process_rss_feeds\<close>: the configuration and the items of a task
  for which the submission is reached, \<open>None\<close> when the task is skipped (no
  usable configuration, no feed URL, no items).
\<close>

definition task_items ::
  "pylib \<Rightarrow> (string \<Rightarrow> pydict list option) \<Rightarrow> task_row \<Rightarrow> (pydict \<times> pydict list) option" where
  "task_items L feedparser_parse t =
     (case config_of L t of
        JObj c \<Rightarrow>
          (case dict_get c ''feed_url'' of
             JStr f \<Rightarrow>
               if f = [] then None
               else (let items = parse_rss_feed feedparser_parse f (max_items_of (int_of_str L) c)
                     in if items = [] then None else Some (c, items))
           | _ \<Rightarrow> None)
      | _ \<Rightarrow> None)"

text \<open>The loop over the tasks, with the running total and the state.\<close>

fun process_tasks ::
  "pylib \<Rightarrow> settings \<Rightarrow> rss_world \<Rightarrow> (string \<Rightarrow> pydict list option) \<Rightarrow> task_row list
     \<Rightarrow> nat \<times> rss_state \<Rightarrow> nat \<times> rss_state" where
  "process_tasks L cfg w fp [] (total_processed, st) = (total_processed, st)"
| "process_tasks L cfg w fp (t # ts) (total_processed, st) =
     (case task_items L fp t of
        None \<Rightarrow> process_tasks L cfg w fp ts (total_processed, st)
      | Some (c, items) \<Rightarrow>
          (case submit_rss_items_to_queue L cfg w t items st of
             (processed, st') \<Rightarrow> process_tasks L cfg w fp ts (total_processed + processed, st')))"

text \<open>One scheduler cycle: \<^verbatim>\<open>process_rss_feeds\<close> over the scanned tasks.\<close>

definition process_rss_feeds ::
  "pylib \<Rightarrow> settings \<Rightarrow> rss_world \<Rightarrow> (string \<Rightarrow> pydict list option) \<Rightarrow> task_row list
     \<Rightarrow> rss_state \<Rightarrow> nat \<times> rss_state" where
  "process_rss_feeds L cfg w fp ts st = process_tasks L cfg w fp ts (0, st)"

text \<open>
  The links of a task's items, and what the statements below require of the
  markers present at the start: each is stored under the hash of its URL, with
  one item per key.
\<close>

definition task_links :: "pylib \<Rightarrow> (string \<Rightarrow> pydict list option) \<Rightarrow> task_row \<Rightarrow> string list" where
  "task_links L fp t =
     (case task_items L fp t of
        None \<Rightarrow> []
      | Some (c, items) \<Rightarrow>
          concat (map (\<lambda>item. case item_get item (link_field_of c) of
                                 Some (JStr u) \<Rightarrow> [u] | _ \<Rightarrow> []) items))"




section \<open>Concrete inputs\<close>

text \<open>
  The envelope of the scenarios S1--S3, the same envelope after one failed
  attempt, an envelope with an empty \<^verbatim>\<open>id\<close> and an \<^verbatim>\<open>event_id\<close>, and an envelope
  with an empty \<^verbatim>\<open>id\<close> and no \<^verbatim>\<open>event_id\<close>, before and after one failed attempt.
\<close>

definition ex_body :: pydict where
  "ex_body = [(''type'', JStr ''crawl-single-url''), (''id'', JStr ''x''),
              (''url'', JStr ''https://e.com/a''), (''save_pdf'', JBool False)]"

definition ex_body_retried :: pydict where
  "ex_body_retried = [(''type'', JStr ''crawl-single-url''), (''id'', JStr ''x''),
                      (''url'', JStr ''https://e.com/a''), (''save_pdf'', JBool False),
                      (''retry_count'', JInt 1), (''retry'', JBool True)]"

definition ex_body_event :: pydict where
  "ex_body_event = [(''type'', JStr ''crawl-single-url''), (''id'', JStr ''''),
                    (''url'', JStr ''https://e.com/a''), (''event_id'', JStr ''e1'')]"

definition ex_body_noid :: pydict where
  "ex_body_noid = [(''type'', JStr ''crawl-single-url''), (''id'', JStr ''''),
                   (''url'', JStr ''https://e.com/a'')]"

definition ex_body_noid_retried :: pydict where
  "ex_body_noid_retried = [(''type'', JStr ''crawl-single-url''), (''id'', JStr ''''),
                           (''url'', JStr ''https://e.com/a''),
                           (''retry_count'', JInt 1), (''retry'', JBool True)]"

text \<open>A library instance that knows these bodies and two URLs.\<close>

definition ex_lib :: pylib where
  "ex_lib =
     \<lparr> json_loads = (\<lambda>s. if s = ''{type: crawl-single-url, id: x, url: https://e.com/a, save_pdf: false}''
                          then Some (JObj ex_body)
                          else if s = ''{type: crawl-single-url, id: x, url: https://e.com/a, save_pdf: false, retry_count: 1, retry: true}''
                          then Some (JObj ex_body_retried)
                          else if s = ''{type: crawl-single-url, id: , url: https://e.com/a, event_id: e1}''
                          then Some (JObj ex_body_event)
                          else if s = ''{title: T, body: B, url: https://e.com/a}''
                          then Some (JObj [(''title'', JStr ''T''), (''body'', JStr ''B''),
                                           (''url'', JStr ''https://e.com/a'')])
                          else if s = ''{type: crawl-single-url, id: , url: https://e.com/a}''
                          then Some (JObj ex_body_noid)
                          else if s = ''{type: crawl-single-url, id: , url: https://e.com/a, retry_count: 1, retry: true}''
                          then Some (JObj ex_body_noid_retried)
                          else None),
       json_dumps = (\<lambda>v. if v = JObj ex_body_retried
                          then ''{type: crawl-single-url, id: x, url: https://e.com/a, save_pdf: false, retry_count: 1, retry: true}''
                          else if v = JObj ex_body_noid_retried
                          then ''{type: crawl-single-url, id: , url: https://e.com/a, retry_count: 1, retry: true}''
                          else ''null''),
       int_of_str = (\<lambda>s. if s = ''3'' then Some 3 else None),
       HttpUrl_valid = (\<lambda>u. u = ''https://e.com/a'' \<or> u = ''https://e.com/b''),
       HttpUrl_str = (\<lambda>u. u),
       optional_fields_valid = (\<lambda>t p. True),
       md5_hexdigest = (\<lambda>s. if s = ''https://e.com/a'' then ''5f0c1a9e2b7d4c3a8e6f1b2c9d0a7e41''
                             else if s = ''https://e.com/b'' then ''a3b1c5d7e9f20468ace13579bdf02468''
                             else ''d41d8cd98f00b204e9800998ecf8427e'') \<rparr>"

definition ex_cfg :: settings where
  "ex_cfg = \<lparr> crawl_save_location = ''crawled'', s3_bucket_name = ''bucket'',
              rss_track_processed_urls = True \<rparr>"

definition ex_msg :: message where
  "ex_msg = \<lparr> MessageId = ''m1'', ReceiptHandle = ''rh1'',
              Body = ''{type: crawl-single-url, id: x, url: https://e.com/a, save_pdf: false}'',
              Attributes = None, MessageAttributes = None \<rparr>"

definition ex_msg_retried :: message where
  "ex_msg_retried = \<lparr> MessageId = ''m2'', ReceiptHandle = ''rh2'',
              Body = ''{type: crawl-single-url, id: x, url: https://e.com/a, save_pdf: false, retry_count: 1, retry: true}'',
              Attributes = Some [(''ApproximateReceiveCount'', ''3'')], MessageAttributes = None \<rparr>"

definition ex_msg_event :: message where
  "ex_msg_event = \<lparr> MessageId = ''m3'', ReceiptHandle = ''rh3'',
              Body = ''{type: crawl-single-url, id: , url: https://e.com/a, event_id: e1}'',
              Attributes = None, MessageAttributes = None \<rparr>"

definition ex_msg_noid :: message where
  "ex_msg_noid = \<lparr> MessageId = ''m4'', ReceiptHandle = ''rh4'',
              Body = ''{type: crawl-single-url, id: , url: https://e.com/a}'',
              Attributes = None, MessageAttributes = None \<rparr>"

definition ex_msg_noid_retried :: message where
  "ex_msg_noid_retried = \<lparr> MessageId = ''m5'', ReceiptHandle = ''rh5'',
              Body = ''{type: crawl-single-url, id: , url: https://e.com/a, retry_count: 1, retry: true}'',
              Attributes = None, MessageAttributes = None \<rparr>"

text \<open>A delivery during which the crawl fails, one during which it succeeds, one
  during which the crawl and the delete call fail, and one during which the crawl
  and the send call fail.\<close>

definition ex_world_fail :: world where
  "ex_world_fail = \<lparr> app_set = True, crawl_urls_result = (\<lambda>u s. Inl CrawlFailure),
                     delete_raises = False, send_raises = False, visibility_raises = False \<rparr>"

definition ex_world_ok :: world where
  "ex_world_ok = \<lparr> app_set = True,
                   crawl_urls_result = (\<lambda>u s. Inr [''crawled/x/2025/01/02/9d0a7e41'']),
                   delete_raises = False, send_raises = False, visibility_raises = False \<rparr>"

definition ex_world_delete_fails :: world where
  "ex_world_delete_fails = \<lparr> app_set = True, crawl_urls_result = (\<lambda>u s. Inl CrawlFailure),
                     delete_raises = True, send_raises = False, visibility_raises = False \<rparr>"

definition ex_world_send_fails :: world where
  "ex_world_send_fails = \<lparr> app_set = True, crawl_urls_result = (\<lambda>u s. Inl CrawlFailure),
                     delete_raises = False, send_raises = True, visibility_raises = False \<rparr>"



definition ex_consumer :: consumer_cfg where
  "ex_consumer = \<lparr> concurrency = 5, heartbeat_every = Some 30, visibility_timeout = Some 120 \<rparr>"

definition ex_date :: date where
  "ex_date = \<lparr> year = 2025, month = 1, day = 2 \<rparr>"

definition ex_result :: crawl_result where
  "ex_result = \<lparr> success = True,
                 extracted_content = ''{title: T, body: B, url: https://e.com/a}'',
                 pdf = False \<rparr>"

text \<open>
  The RSS task of scenario S4 with its feed of three entries, a run in which every
  call succeeds, and a run in which the marker for the first link cannot be saved.
\<close>

definition ex_task :: task_row where
  "ex_task = \<lparr> task_id = ''task'', tags = [''global'', ''news''],
               config_data = JObj [(''feed_url'', JStr ''https://f/''),
                                   (''item_link_field'', JStr ''link''),
                                   (''max_items'', JInt 2)] \<rparr>"


text \<open>The same feed URL serving a feed that lists one link twice.\<close>

definition ex_feed_dup :: "string \<Rightarrow> pydict list option" where
  "ex_feed_dup f = (if f = ''https://f/''
                    then Some [[(''link'', JStr ''https://e.com/a'')],
                               [(''link'', JStr ''https://e.com/a'')]]
                    else None)"

definition ex_rss_ok :: rss_world where
  "ex_rss_ok = \<lparr> query_raises = False, send_fails = (\<lambda>u. False), save_fails = (\<lambda>u. False) \<rparr>"


definition ex_rss_start :: rss_state where
  "ex_rss_start = \<lparr> processed_table = Some [], queue = [] \<rparr>"

section \<open>Properties of the credential refresher\<close>







section \<open>Properties of message processing\<close>

lemma requeue_no_Handled: "count_list (snd (requeue L w msg body)) (Handled k) = 0"
  by (auto simp: requeue_def fall_back_def Let_def split: prod.splits)

lemma dispatch_Handled:
  assumes "dispatch L cfg w msg event_id body = (res, evs0)"
  shows "count_list evs0 (Handled k) = (if k = event_id then 1 else 0)"
proof -
  obtain r body' where h: "handle_crawl_single_url L cfg w body = (r, body')"
    by (cases "handle_crawl_single_url L cfg w body")
  obtain r' evs where q: "requeue L w msg body' = (r', evs)"
    by (cases "requeue L w msg body'")
  have "count_list evs (Handled k) = 0"
    using requeue_no_Handled[of L w msg body' k] q by simp
  with assms show ?thesis
    by (cases r; cases "the r") (auto simp add: dispatch_def h q)
qed

lemma process_message_seen_mono:
  "process_message L cfg w msg seen = (r, seen', evs) \<Longrightarrow> seen \<subseteq> seen'"
  by (auto simp: process_message_def claim_def
      split: option.splits json.splits prod.splits if_splits)

lemma process_message_Handled:
  assumes "process_message L cfg w msg seen = (r, seen', evs)"
  shows "count_list evs (Handled k) \<le> (if k \<in> seen then 0 else 1)"
    and "count_list evs (Handled k) > 0 \<Longrightarrow> k \<in> seen'"
  using assms
  by (auto simp: process_message_def claim_def dispatch_Handled
      split: option.splits json.splits prod.splits if_splits)

lemma consume_Handled:
  "count_list (snd (consume L cfg ds seen)) (Handled k) \<le> (if k \<in> seen then 0 else 1)"
proof (induction ds arbitrary: seen)
  case Nil
  then show ?case by simp
next
  case (Cons d ds)
  obtain w msg where d: "d = (w, msg)" by (cases d)
  obtain r seen' evs where pm: "process_message L cfg w msg seen = (r, seen', evs)"
    by (cases "process_message L cfg w msg seen")
  obtain seen'' evs' where co: "consume L cfg ds seen' = (seen'', evs')"
    by (cases "consume L cfg ds seen'")
  have sub: "seen \<subseteq> seen'" by (rule process_message_seen_mono[OF pm])
  have a: "count_list evs (Handled k) \<le> (if k \<in> seen then 0 else 1)"
    by (rule process_message_Handled(1)[OF pm])
  have b: "count_list evs' (Handled k) \<le> (if k \<in> seen' then 0 else 1)"
    using Cons.IH[of seen'] co by simp
  have c: "count_list evs (Handled k) > 0 \<Longrightarrow> k \<in> seen'"
    by (rule process_message_Handled(2)[OF pm])
  have "count_list evs (Handled k) + count_list evs' (Handled k) \<le> (if k \<in> seen then 0 else 1)"
  proof (cases "count_list evs (Handled k) = 0")
    case True
    with b sub show ?thesis by (auto split: if_splits)
  next
    case False
    with c have "k \<in> seen'" by simp
    with a b show ?thesis by (auto split: if_splits)
  qed
  then show ?case by (simp add: d pm co)
qed

lemma process_message_duplicate:
  "json_loads L (Body msg) = Some (JObj body) \<Longrightarrow> CrawlRequest_model_validate L (JObj body) \<Longrightarrow>
   hash_key (envelope_key body msg) = Some k \<Longrightarrow> k \<in> seen \<Longrightarrow>
   process_message L cfg w msg seen =
     (if delete_raises w then Some ClientError else None, seen, [DeleteMessage (ReceiptHandle msg)])"
  by (simp add: process_message_def claim_def)

lemma validated_id:
  "CrawlRequest_model_validate L (JObj body) \<Longrightarrow> \<exists>i. dict_get body ''id'' = JStr i"
  by (auto simp: CrawlRequest_model_validate_def dict_get_def split: option.splits json.splits)

lemma process_message_fresh:
  "json_loads L (Body msg) = Some (JObj body) \<Longrightarrow> CrawlRequest_model_validate L (JObj body) \<Longrightarrow>
   hash_key (envelope_key body msg) = Some k \<Longrightarrow> k \<notin> seen \<Longrightarrow>
   dict_get body ''type'' = JStr ''crawl-single-url'' \<Longrightarrow>
   process_message L cfg w msg seen =
     (fst (dispatch L cfg w msg k body), insert k seen, snd (dispatch L cfg w msg k body))"
  by (simp add: process_message_def claim_def split: prod.splits)

lemma handler_retryable:
  "crawl_attempt L cfg w body = Some e \<Longrightarrow> isinstance_Exception e \<Longrightarrow>
   retry_count_of body = Some n \<Longrightarrow> n < 1 \<Longrightarrow>
   handle_crawl_single_url L cfg w body =
     (Some RetryableError,
      AList.update ''retry'' (JBool True) (AList.update ''retry_count'' (JInt (n + 1)) body))"
  by (simp add: handle_crawl_single_url_def)

lemma handler_non_retryable:
  "crawl_attempt L cfg w body = Some e \<Longrightarrow> isinstance_Exception e \<Longrightarrow>
   retry_count_of body = Some n \<Longrightarrow> 1 \<le> n \<Longrightarrow>
   handle_crawl_single_url L cfg w body = (Some NonRetryableError, body)"
  by (simp add: handle_crawl_single_url_def)

lemma requeue_events:
  "snd (requeue L w msg body') =
     DeleteMessage (ReceiptHandle msg) #
     (if delete_raises w
      then [ChangeMessageVisibility (ReceiptHandle msg) (compute_backoff_seconds (get_receive_count L msg))]
      else SendMessage (json_dumps L (JObj body'))
             (case MessageAttributes msg of None \<Rightarrow> [] | Some a \<Rightarrow> a)
             (compute_backoff_seconds (get_receive_count L msg)) #
           (if send_raises w
            then [ChangeMessageVisibility (ReceiptHandle msg)
                    (compute_backoff_seconds (get_receive_count L msg))]
            else []))"
  by (simp add: requeue_def fall_back_def Let_def)

lemma dispatch_retryable:
  "handle_crawl_single_url L cfg w body = (Some RetryableError, body') \<Longrightarrow>
   snd (dispatch L cfg w msg k body) = Handled k # snd (requeue L w msg body')"
  by (simp add: dispatch_def split: prod.splits)

lemma dispatch_non_retryable:
  "handle_crawl_single_url L cfg w body = (Some NonRetryableError, body') \<Longrightarrow>
   dispatch L cfg w msg k body = (None, [Handled k])"
  by (simp add: dispatch_def)

lemma backoff_formula:
  "0 \<le> r \<Longrightarrow> compute_backoff_seconds r = PyInt (min 900 (2 ^ nat (min r 8)))"
  by (simp add: compute_backoff_seconds_def Let_def)

lemma map_of_retried:
  "map_of (AList.update ''retry'' (JBool True) (AList.update ''retry_count'' v body)) f =
     (if f = ''retry'' then Some (JBool True)
      else if f = ''retry_count'' then Some v else map_of body f)"
  by (simp add: update_conv')

lemma validate_retried:
  "CrawlRequest_model_validate L (JObj body) \<Longrightarrow>
   CrawlRequest_model_validate L
     (JObj (AList.update ''retry'' (JBool True) (AList.update ''retry_count'' v body)))"
  by (simp add: CrawlRequest_model_validate_def dict_get_def map_of_retried)

lemma envelope_key_retried:
  "truthy (dict_get body ''id'') \<or> truthy (dict_get body ''event_id'') \<Longrightarrow>
   envelope_key (AList.update ''retry'' (JBool True) (AList.update ''retry_count'' v body)) msg2
     = envelope_key body msg"
  by (auto simp: envelope_key_def dict_get_def map_of_retried)

section \<open>Properties of the dispatch loop\<close>

lemma filter_update_length:
  "i < length xs \<Longrightarrow>
   length (filter P (xs[i := v])) + (if P (xs ! i) then 1 else 0)
     = length (filter P xs) + (if P v then 1 else 0)"
proof (induction xs arbitrary: i)
  case Nil
  then show ?case by simp
next
  case (Cons x xs)
  then show ?case by (cases i) auto
qed

lemma enter_counts:
  assumes "i < length (tasks s)" "tasks s ! i = Dispatched"
  shows "extracting (s\<lparr>crawl_semaphore := k, tasks := (tasks s)[i := Extracting]\<rparr>) = Suc (extracting s)"
    and "in_flight (s\<lparr>crawl_semaphore := k, tasks := (tasks s)[i := Extracting]\<rparr>) = in_flight s"
  using filter_update_length[OF assms(1), of "\<lambda>p. p = Extracting" Extracting]
        filter_update_length[OF assms(1), of "\<lambda>p. p \<noteq> Finished" Extracting] assms(2)
  by (simp_all add: extracting_def in_flight_def)

lemma leave_counts:
  assumes "i < length (tasks s)" "tasks s ! i = Extracting"
  shows "Suc (extracting (s\<lparr>crawl_semaphore := k, tasks := (tasks s)[i := Leaving]\<rparr>)) = extracting s"
    and "in_flight (s\<lparr>crawl_semaphore := k, tasks := (tasks s)[i := Leaving]\<rparr>) = in_flight s"
  using filter_update_length[OF assms(1), of "\<lambda>p. p = Extracting" Leaving]
        filter_update_length[OF assms(1), of "\<lambda>p. p \<noteq> Finished" Leaving] assms(2)
  by (simp_all add: extracting_def in_flight_def)

lemma finish_counts:
  assumes "i < length (tasks s)" "tasks s ! i = Dispatched \<or> tasks s ! i = Leaving"
  shows "extracting (s\<lparr>sem := k, tasks := (tasks s)[i := Finished]\<rparr>) = extracting s"
    and "Suc (in_flight (s\<lparr>sem := k, tasks := (tasks s)[i := Finished]\<rparr>)) = in_flight s"
  using filter_update_length[OF assms(1), of "\<lambda>p. p = Extracting" Finished]
        filter_update_length[OF assms(1), of "\<lambda>p. p \<noteq> Finished" Finished] assms(2)
  by (auto simp add: extracting_def in_flight_def)

lemma dispatch_counts:
  shows "extracting (s\<lparr>sem := k, tasks := tasks s @ [Dispatched]\<rparr>) = extracting s"
    and "in_flight (s\<lparr>sem := k, tasks := tasks s @ [Dispatched]\<rparr>) = Suc (in_flight s)"
  by (simp_all add: extracting_def in_flight_def)

lemma step_inv:
  assumes "crawl_semaphore s + extracting s = 1 \<and> sem s + in_flight s = n"
  shows "crawl_semaphore (step c s e) + extracting (step c s e) = 1
   \<and> sem (step c s e) + in_flight (step c s e) = n"
proof (cases e)
  case Dispatch
  with assms show ?thesis by (simp add: dispatch_counts)
next
  case (EnterGate i)
  with assms show ?thesis by (simp add: enter_counts)
next
  case (LeaveGate i)
  show ?thesis
  proof (cases "i < length (tasks s) \<and> tasks s ! i = Extracting")
    case True
    with leave_counts[of i s "crawl_semaphore s + 1"] assms LeaveGate show ?thesis by simp
  next
    case False
    with assms LeaveGate show ?thesis by auto
  qed
next
  case (Finish i hb outcome)
  show ?thesis
  proof (cases "i < length (tasks s) \<and> (tasks s ! i = Dispatched \<or> tasks s ! i = Leaving)")
    case True
    with finish_counts[of i s "Suc (sem s)"] assms Finish show ?thesis
      by (simp add: handle_message_def Let_def)
  next
    case False
    with assms Finish show ?thesis by auto
  qed
qed

lemma foldl_inv:
  "crawl_semaphore s + extracting s = 1 \<and> sem s + in_flight s = n \<Longrightarrow>
   crawl_semaphore (foldl (step c) s evs) + extracting (foldl (step c) s evs) = 1
   \<and> sem (foldl (step c) s evs) + in_flight (foldl (step c) s evs) = n"
proof (induction evs arbitrary: s)
  case Nil
  then show ?case by simp
next
  case (Cons e evs)
  show ?case using Cons.IH[OF step_inv[OF Cons.prems, of c e]] by simp
qed

lemma run_schedule_inv:
  "crawl_semaphore (run_schedule c evs) + extracting (run_schedule c evs) = 1
   \<and> sem (run_schedule c evs) + in_flight (run_schedule c evs) = concurrency c"
  using foldl_inv[of "initial c" "concurrency c" c evs]
  by (simp add: run_schedule_def initial_def extracting_def in_flight_def)

section \<open>Properties of the output paths\<close>

lemma digit_in: "d < 10 \<Longrightarrow> digit d \<in> set ''0123456789''"
proof -
  assume "d < 10"
  then have "d \<in> {0,1,2,3,4,5,6,7,8,9}" by auto
  then show ?thesis by (auto simp: digit_def)
qed

lemma str_nat_digits: "set (str_nat n) \<subseteq> set ''0123456789''"
proof (induction n rule: str_nat.induct)
  case (1 n)
  show ?case
  proof (cases "n < 10")
    case True
    then show ?thesis using digit_in[of n] by (subst str_nat.simps) simp
  next
    case False
    have "n mod 10 < 10" by simp
    from digit_in[OF this] 1[OF False] False show ?thesis
      by (subst str_nat.simps) simp
  qed
qed

lemma str_nat_nonempty: "str_nat n \<noteq> []"
  by (subst str_nat.simps) simp

lemma fmt_02d_digits: "set (fmt_02d n) \<subseteq> set ''0123456789''"
  using str_nat_digits[of n] by (auto simp: fmt_02d_def)

lemma fmt_02d_nonempty: "fmt_02d n \<noteq> []"
  by (simp add: fmt_02d_def str_nat_nonempty)

lemma str_nat_length_small: "n < 10 \<Longrightarrow> length (str_nat n) = 1"
  by (subst str_nat.simps) simp

lemma str_nat_length_two: "10 \<le> n \<Longrightarrow> n < 100 \<Longrightarrow> length (str_nat n) = 2"
  by (subst str_nat.simps) (simp add: str_nat_length_small)

lemma fmt_02d_length: "n < 100 \<Longrightarrow> length (fmt_02d n) = 2"
  by (cases "n < 10") (simp_all add: fmt_02d_def str_nat_length_small str_nat_length_two)

lemma split_on_nonempty: "split_on c s \<noteq> []"
  by (induction s) (auto split: list.splits)

lemma split_on_no_sep: "c \<notin> set a \<Longrightarrow> split_on c a = [a]"
  by (induction a) (auto split: list.splits)

lemma split_on_append: "c \<notin> set a \<Longrightarrow> split_on c (a @ c # b) = a # split_on c b"
  by (induction a) (auto split: list.splits simp: split_on_nonempty)

lemma join_on_Cons: "ys \<noteq> [] \<Longrightarrow> join_on sep (p # ys) = p @ sep @ join_on sep ys"
  by (cases ys) simp_all

lemma join_on_append:
  "xs \<noteq> [] \<Longrightarrow> ys \<noteq> [] \<Longrightarrow> join_on sep (xs @ ys) = join_on sep xs @ sep @ join_on sep ys"
proof (induction xs)
  case Nil
  then show ?case by simp
next
  case (Cons x xs)
  show ?case
  proof (cases "xs = []")
    case True
    with Cons.prems show ?thesis by (simp add: join_on_Cons)
  next
    case False
    with Cons show ?thesis by (simp add: join_on_Cons)
  qed
qed

lemma join_on_snoc2:
  "xs \<noteq> [] \<Longrightarrow> join_on sep (xs @ [a, b]) = join_on sep xs @ sep @ a @ sep @ b"
  using join_on_append[of xs "[a, b]" sep] by simp

definition component :: "string \<Rightarrow> bool" where
  "component p = (p \<noteq> [] \<and> p \<noteq> ''.'' \<and> CHR ''/'' \<notin> set p)"

lemma Path_component: "component p \<Longrightarrow> Path p = \<lparr> root = [], parts = [p] \<rparr>"
  by (cases p) (auto simp: Path_def component_def split_on_no_sep)

lemma digits_component: "s \<noteq> [] \<Longrightarrow> set s \<subseteq> set ''0123456789'' \<Longrightarrow> component s"
  by (cases s) (auto simp: component_def)

lemma hash8_component:
  assumes "hexdigest_wf (md5_hexdigest L u)"
  shows "component (url_hash8 L u)" and "length (url_hash8 L u) = 8"
    and "url_hash8 L u = drop 24 (md5_hexdigest L u)"
proof -
  let ?h = "md5_hexdigest L u"
  from assms have len: "length ?h = 32"
    and hex: "\<forall>c \<in> set ?h. c \<in> set ''0123456789abcdef''"
    by (simp_all add: hexdigest_wf_def list_all_iff)
  show eq: "url_hash8 L u = drop 24 ?h" by (simp add: url_hash8_def Let_def len)
  show l8: "length (url_hash8 L u) = 8" by (simp add: eq len)
  have sub: "set (url_hash8 L u) \<subseteq> set ?h" unfolding eq by (rule set_drop_subset)
  have nohex: "CHR ''/'' \<notin> set ''0123456789abcdef''" "CHR ''.'' \<notin> set ''0123456789abcdef''"
    by simp_all
  from hex nohex have "CHR ''/'' \<notin> set ?h" "CHR ''.'' \<notin> set ?h" by blast+
  with sub have no: "CHR ''/'' \<notin> set (url_hash8 L u)" "CHR ''.'' \<notin> set (url_hash8 L u)"
    by blast+
  have ne: "url_hash8 L u \<noteq> []" using l8 by (cases "url_hash8 L u") simp_all
  have nd: "url_hash8 L u \<noteq> ''.''"
  proof
    assume "url_hash8 L u = ''.''"
    then have "CHR ''.'' \<in> set (url_hash8 L u)" by simp
    with no(2) show False by simp
  qed
  from ne nd no(1) show "component (url_hash8 L u)"
    by (simp add: component_def)
qed

lemma Path_four:
  assumes "component a" "component b" "component c" "component d"
  shows "Path (a @ ''/'' @ b @ ''/'' @ c @ ''/'' @ d) = \<lparr> root = [], parts = [a, b, c, d] \<rparr>"
proof -
  from assms have ns: "CHR ''/'' \<notin> set a" "CHR ''/'' \<notin> set b" "CHR ''/'' \<notin> set c"
    "CHR ''/'' \<notin> set d"
    by (simp_all add: component_def)
  have sp: "split_on CHR ''/'' (a @ CHR ''/'' # b @ CHR ''/'' # c @ CHR ''/'' # d) = [a, b, c, d]"
    by (simp only: split_on_append[OF ns(1)] split_on_append[OF ns(2)]
          split_on_append[OF ns(3)] split_on_no_sep[OF ns(4)])
  obtain x xs where a: "a = x # xs" using assms(1) by (cases a) (auto simp: component_def)
  have x: "x \<noteq> CHR ''/''" using ns(1) a by auto
  have rt: "root (Path (a @ ''/'' @ b @ ''/'' @ c @ ''/'' @ d)) = []"
    using x by (simp add: Path_def a)
  have pt: "parts (Path (a @ ''/'' @ b @ ''/'' @ c @ ''/'' @ d)) = [a, b, c, d]"
    using assms by (simp add: Path_def sp component_def)
  show ?thesis using rt pt by simp
qed

lemma relative_path_Path:
  assumes "hexdigest_wf (md5_hexdigest L u)"
  shows "Path (relative_path L today u) =
           \<lparr> root = [], parts = [str_nat (year today), fmt_02d (month today),
                                 fmt_02d (day today), url_hash8 L u] \<rparr>"
  unfolding relative_path_def
  by (rule Path_four[OF digits_component[OF str_nat_nonempty str_nat_digits]
        digits_component[OF fmt_02d_nonempty fmt_02d_digits]
        digits_component[OF fmt_02d_nonempty fmt_02d_digits] hash8_component(1)[OF assms]])

lemma save_dir_parts:
  assumes "hexdigest_wf (md5_hexdigest L u)"
  shows "\<exists>pre. parts (save_dir L today save_location u) =
           pre @ [str_nat (year today), fmt_02d (month today), fmt_02d (day today), url_hash8 L u]
         \<and> (save_location = Some sl \<and> sl \<noteq> [] \<longrightarrow>
               pre = parts (Path sl) \<and> root (save_dir L today save_location u) = root (Path sl))"
  by (cases save_location)
     (auto simp: save_dir_def joinpath_def relative_path_Path[OF assms])

lemma local_file_ends:
  assumes "hexdigest_wf (md5_hexdigest L u)" and "component name"
  shows "\<exists>pre. local_file L today save_location u name = pre @ ''/'' @ url_hash8 L u @ ''/'' @ name"
proof -
  from save_dir_parts[OF assms(1), of today save_location]
  obtain pre where p: "parts (save_dir L today save_location u) =
           pre @ [str_nat (year today), fmt_02d (month today), fmt_02d (day today), url_hash8 L u]"
    by blast
  let ?xs = "pre @ [str_nat (year today), fmt_02d (month today), fmt_02d (day today)]"
  have ne: "?xs \<noteq> []" by simp
  have "parts (joinpath (save_dir L today save_location u) name) = ?xs @ [url_hash8 L u, name]"
    by (simp add: joinpath_def Path_component[OF assms(2)] p)
  then have "local_file L today save_location u name =
          root (save_dir L today save_location u) @ join_on ''/'' (?xs @ [url_hash8 L u, name])"
    by (simp add: local_file_def path_str_def joinpath_def Path_component[OF assms(2)])
  also have "join_on ''/'' (?xs @ [url_hash8 L u, name])
               = join_on ''/'' ?xs @ ''/'' @ url_hash8 L u @ ''/'' @ name"
    by (rule join_on_snoc2[OF ne])
  finally have "local_file L today save_location u name =
      (root (save_dir L today save_location u) @ join_on ''/'' ?xs) @ ''/'' @ url_hash8 L u @ ''/'' @ name"
    by simp
  then show ?thesis by blast
qed

lemma local_file_exact:
  assumes "hexdigest_wf (md5_hexdigest L u)" and "component name"
      and "path_str (Path sl) = sl" and "parts (Path sl) \<noteq> []"
  shows "local_file L today (Some sl) u name = sl @ ''/'' @ relative_path L today u @ ''/'' @ name"
proof -
  from assms(4) have sl: "sl \<noteq> []" by (auto simp: Path_def)
  let ?rel = "[str_nat (year today), fmt_02d (month today), fmt_02d (day today), url_hash8 L u]"
  have sd: "save_dir L today (Some sl) u = \<lparr> root = root (Path sl), parts = parts (Path sl) @ ?rel \<rparr>"
    using sl by (simp add: save_dir_def joinpath_def relative_path_Path[OF assms(1)])
  have "local_file L today (Some sl) u name =
          root (Path sl) @ join_on ''/'' (parts (Path sl) @ (?rel @ [name]))"
    by (simp add: local_file_def path_str_def joinpath_def Path_component[OF assms(2)] sd)
  also have "join_on ''/'' (parts (Path sl) @ (?rel @ [name]))
               = join_on ''/'' (parts (Path sl)) @ ''/'' @ join_on ''/'' (?rel @ [name])"
    by (rule join_on_append[OF assms(4)]) simp
  also have "root (Path sl) @ (join_on ''/'' (parts (Path sl)) @ ''/'' @ join_on ''/'' (?rel @ [name]))
               = sl @ ''/'' @ join_on ''/'' (?rel @ [name])"
    using assms(3,4) by (simp add: path_str_def)
  finally show ?thesis by (simp add: relative_path_def)
qed

lemma file_names_component:
  "component ''article.json''" "component ''article.txt''" "component ''article.pdf''"
  "component ''raw_extracted.txt''"
  by (simp_all add: component_def)

lemma crawl_outputs_forms:
  assumes "out \<in> set (crawl_outputs L cfg today save_location u r)"
  shows "\<exists>name \<in> {''article.json'', ''article.txt'', ''article.pdf'', ''raw_extracted.txt''}.
           out = LocalFile (local_file L today save_location u name)
         \<or> out = S3Object (s3_key L today save_location u name)"
  using assms
  by (auto simp: crawl_outputs_def Let_def split: option.splits json.splits list.splits if_splits)

lemma handle_crawl_single_url_outputs_mem:
  assumes "dict_get payload ''id'' = JStr i" and "dict_get payload ''url'' = JStr u"
      and "out \<in> set (handle_crawl_single_url_outputs L cfg w today r payload)"
  shows "out \<in> set (crawl_outputs L cfg today (Some (crawl_save_location cfg @ ''/'' @ i))
                      (HttpUrl_str L u) r)"
    and "CrawlRequest_model_validate L (JObj payload)" and "app_set w" and "success r"
  using assms(3) unfolding handle_crawl_single_url_outputs_def assms(1,2)
  by (simp_all split: if_splits)
section \<open>Properties of the RSS submission\<close>



























section \<open>Feed truncation\<close>

text \<open>
  C8. For a parsed feed, all entries are kept when \<open>max_items\<close> is unset or 0, and
  exactly the first \<open>n\<close> entries, in the parser's order, when \<open>max_items = n > 0\<close>;
  the same holds for the value as \<^verbatim>\<open>process_rss_feeds\<close> reads it from the task's
  configuration.
\<close>

theorem C8_max_items_truncation:
  "feedparser_parse feed_url = Some entries \<Longrightarrow>
     parse_rss_feed feedparser_parse feed_url None = entries
   \<and> parse_rss_feed feedparser_parse feed_url (Some 0) = entries
   \<and> (\<forall>n > 0. parse_rss_feed feedparser_parse feed_url (Some n) = take (nat n) entries)
   \<and> (map_of conf ''max_items'' = None \<longrightarrow>
        feed_items int_str feedparser_parse conf feed_url = entries)
   \<and> (map_of conf ''max_items'' = Some (JInt 0) \<longrightarrow>
        feed_items int_str feedparser_parse conf feed_url = entries)
   \<and> (\<forall>n > 0. map_of conf ''max_items'' = Some (JInt n) \<longrightarrow>
        feed_items int_str feedparser_parse conf feed_url = take (nat n) entries)"
  by (simp add: parse_rss_feed_def feed_items_def max_items_of_def dict_get_def)

theorem C8_max_items_truncation_witness:
  "parse_rss_feed (\<lambda>u. Some [''u1'', ''u2'', ''u3'']) ''https://f/'' None = [''u1'', ''u2'', ''u3'']
   \<and> parse_rss_feed (\<lambda>u. Some [''u1'', ''u2'', ''u3'']) ''https://f/'' (Some 0) = [''u1'', ''u2'', ''u3'']
   \<and> parse_rss_feed (\<lambda>u. Some [''u1'', ''u2'', ''u3'']) ''https://f/'' (Some 2) = [''u1'', ''u2'']
   \<and> feed_items (\<lambda>s. None) (\<lambda>u. Some [''u1'', ''u2'', ''u3''])
        [(''feed_url'', JStr ''https://f/''), (''max_items'', JInt 2)] ''https://f/'' = [''u1'', ''u2'']"
  using C8_max_items_truncation
    [of "\<lambda>u. Some [''u1'', ''u2'', ''u3'']" "''https://f/''" "[''u1'', ''u2'', ''u3'']"
        "[(''feed_url'', JStr ''https://f/''), (''max_items'', JInt 2)]" "\<lambda>s. None"]
  by (simp add: numeral_2_eq_2)

section \<open>Credential refresh\<close>



section \<open>Idempotent dispatch\<close>

text \<open>
  C1 (amended). In a process lifetime that starts with an empty idempotency set, the
  handler is invoked at most once for any key. For a validated envelope the key
  is its \<^verbatim>\<open>id\<close> if that is non-empty, else its \<^verbatim>\<open>event_id\<close> if that is present
  and truthy, else the provider's message id. When the key of an incoming
  envelope is already in the set, the only thing done is the delete call for the
  message: the handler is not invoked.
\<close>

theorem C1_at_most_one_handler_per_key:
  "count_list (snd (consume L cfg deliveries {})) (Handled k) \<le> 1
   \<and> (CrawlRequest_model_validate L (JObj body) \<longrightarrow>
        (\<exists>i. dict_get body ''id'' = JStr i
            \<and> envelope_key body msg =
                (if i \<noteq> [] then JStr i
                 else if truthy (dict_get body ''event_id'') then dict_get body ''event_id''
                 else JStr (MessageId msg))))
   \<and> (json_loads L (Body msg) = Some (JObj body) \<and> CrawlRequest_model_validate L (JObj body)
        \<and> hash_key (envelope_key body msg) = Some k \<and> k \<in> seen \<longrightarrow>
        process_message L cfg w msg seen =
          (if delete_raises w then Some ClientError else None, seen,
           [DeleteMessage (ReceiptHandle msg)]))"
proof (intro conjI impI)
  show "count_list (snd (consume L cfg deliveries {})) (Handled k) \<le> 1"
    using consume_Handled[of L cfg deliveries "{}" k] by simp
next
  assume "CrawlRequest_model_validate L (JObj body)"
  then obtain i where "dict_get body ''id'' = JStr i" using validated_id by blast
  then show "\<exists>i. dict_get body ''id'' = JStr i
            \<and> envelope_key body msg =
                (if i \<noteq> [] then JStr i
                 else if truthy (dict_get body ''event_id'') then dict_get body ''event_id''
                 else JStr (MessageId msg))"
    by (simp add: envelope_key_def)
next
  assume "json_loads L (Body msg) = Some (JObj body) \<and> CrawlRequest_model_validate L (JObj body)
        \<and> hash_key (envelope_key body msg) = Some k \<and> k \<in> seen"
  then show "process_message L cfg w msg seen =
          (if delete_raises w then Some ClientError else None, seen,
           [DeleteMessage (ReceiptHandle msg)])"
    using process_message_duplicate by blast
qed

theorem C1_at_most_one_handler_per_key_witness:
  "count_list (snd (consume ex_lib ex_cfg [(ex_world_fail, ex_msg), (ex_world_fail, ex_msg_retried)] {}))
     (Handled (KStr ''x'')) \<le> 1
   \<and> CrawlRequest_model_validate ex_lib (JObj ex_body_retried)
   \<and> envelope_key ex_body_retried ex_msg_retried = JStr ''x''
   \<and> json_loads ex_lib (Body ex_msg_retried) = Some (JObj ex_body_retried)
   \<and> hash_key (envelope_key ex_body_retried ex_msg_retried) = Some (KStr ''x'')
   \<and> process_message ex_lib ex_cfg ex_world_fail ex_msg_retried {KStr ''x''} =
        (None, {KStr ''x''}, [DeleteMessage ''rh2''])"
proof -
  have v: "CrawlRequest_model_validate ex_lib (JObj ex_body_retried)"
    by (simp add: CrawlRequest_model_validate_def ex_lib_def ex_body_retried_def dict_get_def)
  have l: "json_loads ex_lib (Body ex_msg_retried) = Some (JObj ex_body_retried)"
    by (simp add: ex_lib_def ex_msg_retried_def)
  have k: "envelope_key ex_body_retried ex_msg_retried = JStr ''x''"
    by (simp add: envelope_key_def ex_body_retried_def dict_get_def)
  have w: "\<not> delete_raises ex_world_fail" "ReceiptHandle ex_msg_retried = ''rh2''"
    by (simp_all add: ex_world_fail_def ex_msg_retried_def)
  from C1_at_most_one_handler_per_key
         [of ex_lib ex_cfg "[(ex_world_fail, ex_msg), (ex_world_fail, ex_msg_retried)]"
             "KStr ''x''" ex_body_retried ex_msg_retried "{KStr ''x''}" ex_world_fail]
       v l k w
  show ?thesis by simp
qed

text \<open>
  The key rule as the claim states it (the \<^verbatim>\<open>id\<close> if present, else the provider's
  message id) fails for an accepted envelope whose \<^verbatim>\<open>id\<close> is empty and which
  carries an \<^verbatim>\<open>event_id\<close>: the handler is invoked under the key \<^verbatim>\<open>e1\<close>, which is
  neither the envelope's \<^verbatim>\<open>id\<close> nor the message id.
\<close>

theorem C1_key_counterexample:
  "process_message ex_lib ex_cfg ex_world_ok ex_msg_event {} =
     (None, {KStr ''e1''}, [Handled (KStr ''e1''), DeleteMessage ''rh3''])
   \<and> json_loads ex_lib (Body ex_msg_event) = Some (JObj ex_body_event)
   \<and> dict_get ex_body_event ''id'' = JStr []
   \<and> MessageId ex_msg_event = ''m3''
   \<and> envelope_key ex_body_event ex_msg_event \<noteq> dict_get ex_body_event ''id''
   \<and> envelope_key ex_body_event ex_msg_event \<noteq> JStr (MessageId ex_msg_event)"
  by (simp add: process_message_def dispatch_def handle_crawl_single_url_def crawl_attempt_def
        claim_def envelope_key_def dict_get_def CrawlRequest_model_validate_def
        ex_lib_def ex_cfg_def ex_world_ok_def ex_msg_event_def ex_body_event_def)

section \<open>Retry by re-emission\<close>

text \<open>
  C2 (amended). When the handler of a dispatched message fails retryably (the crawl
  raises and the incoming \<^verbatim>\<open>retry_count\<close>, 0 if absent, is below 1), the consumer
  issues the delete of the original and, unless that delete raises, sends a new
  message whose body is the incoming one with \<^verbatim>\<open>retry_count\<close> set to the incoming
  count plus one and \<^verbatim>\<open>retry\<close> set to true, every other field unchanged. The delay
  is \<open>min 900 (2 ^ min r 8)\<close> for a reported, non-negative receive count \<open>r\<close>, and
  2 when none is reported. If the delete or the send raises, the consumer extends
  the visibility of the original by that delay instead.
\<close>

theorem C2_retryable_reemission:
  assumes "json_loads L (Body msg) = Some (JObj body)"
      and "CrawlRequest_model_validate L (JObj body)"
      and "hash_key (envelope_key body msg) = Some k" and "k \<notin> seen"
      and "dict_get body ''type'' = JStr ''crawl-single-url''"
      and "crawl_attempt L cfg w body = Some e" and "isinstance_Exception e"
      and "retry_count_of body = Some n" and "n < 1"
  shows "snd (snd (process_message L cfg w msg seen)) =
           Handled k # DeleteMessage (ReceiptHandle msg) #
           (if delete_raises w
            then [ChangeMessageVisibility (ReceiptHandle msg)
                    (compute_backoff_seconds (get_receive_count L msg))]
            else SendMessage
                   (json_dumps L (JObj (AList.update ''retry'' (JBool True)
                                          (AList.update ''retry_count'' (JInt (n + 1)) body))))
                   (case MessageAttributes msg of None \<Rightarrow> [] | Some a \<Rightarrow> a)
                   (compute_backoff_seconds (get_receive_count L msg)) #
                 (if send_raises w
                  then [ChangeMessageVisibility (ReceiptHandle msg)
                          (compute_backoff_seconds (get_receive_count L msg))]
                  else []))
       \<and> (\<forall>f. map_of (AList.update ''retry'' (JBool True)
                         (AList.update ''retry_count'' (JInt (n + 1)) body)) f =
                (if f = ''retry'' then Some (JBool True)
                 else if f = ''retry_count'' then Some (JInt (n + 1))
                 else map_of body f))
       \<and> (\<forall>attrs s r. Attributes msg = Some attrs
              \<and> map_of attrs ''ApproximateReceiveCount'' = Some s
              \<and> int_of_str L s = Some r \<and> 0 \<le> r \<longrightarrow>
              compute_backoff_seconds (get_receive_count L msg) = PyInt (min 900 (2 ^ nat (min r 8))))
       \<and> (Attributes msg = None \<longrightarrow>
              compute_backoff_seconds (get_receive_count L msg) = PyInt 2)"
proof (intro conjI allI impI)
  have h: "handle_crawl_single_url L cfg w body =
             (Some RetryableError,
              AList.update ''retry'' (JBool True) (AList.update ''retry_count'' (JInt (n + 1)) body))"
    by (rule handler_retryable[OF assms(6-9)])
  show "snd (snd (process_message L cfg w msg seen)) =
           Handled k # DeleteMessage (ReceiptHandle msg) #
           (if delete_raises w
            then [ChangeMessageVisibility (ReceiptHandle msg)
                    (compute_backoff_seconds (get_receive_count L msg))]
            else SendMessage
                   (json_dumps L (JObj (AList.update ''retry'' (JBool True)
                                          (AList.update ''retry_count'' (JInt (n + 1)) body))))
                   (case MessageAttributes msg of None \<Rightarrow> [] | Some a \<Rightarrow> a)
                   (compute_backoff_seconds (get_receive_count L msg)) #
                 (if send_raises w
                  then [ChangeMessageVisibility (ReceiptHandle msg)
                          (compute_backoff_seconds (get_receive_count L msg))]
                  else []))"
    unfolding process_message_fresh[OF assms(1-5)] snd_conv dispatch_retryable[OF h] requeue_events
    by (rule refl)
next
  fix f
  show "map_of (AList.update ''retry'' (JBool True)
                  (AList.update ''retry_count'' (JInt (n + 1)) body)) f =
          (if f = ''retry'' then Some (JBool True)
           else if f = ''retry_count'' then Some (JInt (n + 1))
           else map_of body f)"
    by (rule map_of_retried)
next
  fix attrs s r
  assume "Attributes msg = Some attrs \<and> map_of attrs ''ApproximateReceiveCount'' = Some s
            \<and> int_of_str L s = Some r \<and> 0 \<le> r"
  then show "compute_backoff_seconds (get_receive_count L msg) = PyInt (min 900 (2 ^ nat (min r 8)))"
    using backoff_formula[of r] by (simp add: get_receive_count_def)
next
  assume "Attributes msg = None"
  then show "compute_backoff_seconds (get_receive_count L msg) = PyInt 2"
    by (simp add: get_receive_count_def compute_backoff_seconds_def)
qed

lemma ex_msg_facts:
  shows "json_loads ex_lib (Body ex_msg) = Some (JObj ex_body)"
    and "CrawlRequest_model_validate ex_lib (JObj ex_body)"
    and "hash_key (envelope_key ex_body ex_msg) = Some (KStr ''x'')"
    and "dict_get ex_body ''type'' = JStr ''crawl-single-url''"
    and "retry_count_of ex_body = Some 0"
    and "AList.update ''retry'' (JBool True) (AList.update ''retry_count'' (JInt (0 + 1)) ex_body)
           = ex_body_retried"
    and "dict_get ex_body ''id'' = JStr ''x''"
    and "AList.update ''retry'' (JBool True) (AList.update ''retry_count'' (JInt 1) ex_body)
           = ex_body_retried"
    and "truthy (dict_get ex_body ''id'')"
  by (simp_all add: ex_lib_def ex_msg_def ex_body_def ex_body_retried_def dict_get_def
        CrawlRequest_model_validate_def envelope_key_def retry_count_of_def)

lemma ex_crawl_fails:
  shows "crawl_attempt ex_lib ex_cfg ex_world_fail ex_body = Some CrawlFailure"
    and "crawl_attempt ex_lib ex_cfg ex_world_delete_fails ex_body = Some CrawlFailure"
    and "crawl_attempt ex_lib ex_cfg ex_world_send_fails ex_body = Some CrawlFailure"
  by (simp_all add: crawl_attempt_def ex_lib_def ex_cfg_def ex_world_fail_def
        ex_world_delete_fails_def ex_world_send_fails_def ex_body_def dict_get_def
        CrawlRequest_model_validate_def)

theorem C2_retryable_reemission_witness:
  "snd (snd (process_message ex_lib ex_cfg ex_world_fail ex_msg {})) =
     [Handled (KStr ''x''), DeleteMessage ''rh1'',
      SendMessage ''{type: crawl-single-url, id: x, url: https://e.com/a, save_pdf: false, retry_count: 1, retry: true}''
        [] (PyInt 2)]"
proof -
  have e: "KStr ''x'' \<notin> {}" "isinstance_Exception CrawlFailure" "(0::int) < 1" by simp_all
  have m: "ReceiptHandle ex_msg = ''rh1''" "MessageAttributes ex_msg = None" "Attributes ex_msg = None"
    by (simp_all add: ex_msg_def)
  have w: "\<not> delete_raises ex_world_fail" "\<not> send_raises ex_world_fail"
    by (simp_all add: ex_world_fail_def)
  have d: "json_dumps ex_lib (JObj ex_body_retried) =
             ''{type: crawl-single-url, id: x, url: https://e.com/a, save_pdf: false, retry_count: 1, retry: true}''"
    by (simp add: ex_lib_def)
  from C2_retryable_reemission[OF ex_msg_facts(1-3) e(1) ex_msg_facts(4) ex_crawl_fails(1) e(2)
         ex_msg_facts(5) e(3)]
  show ?thesis
    by (simp add: ex_msg_facts(8) m w d)
qed

text \<open>
  The body that is sent is not the incoming body with only \<^verbatim>\<open>retry_count\<close>
  changed: it also carries \<^verbatim>\<open>retry: true\<close>, which the incoming body of S2 lacks.
\<close>

theorem C2_body_counterexample:
  "snd (snd (process_message ex_lib ex_cfg ex_world_fail ex_msg {})) =
     [Handled (KStr ''x''), DeleteMessage ''rh1'',
      SendMessage (json_dumps ex_lib (JObj ex_body_retried)) [] (PyInt 2)]
   \<and> json_loads ex_lib (Body ex_msg) = Some (JObj ex_body)
   \<and> map_of ex_body ''retry'' = None
   \<and> map_of ex_body_retried ''retry'' = Some (JBool True)"
  by (simp add: process_message_def dispatch_def handle_crawl_single_url_def crawl_attempt_def
        requeue_def fall_back_def claim_def envelope_key_def dict_get_def retry_count_of_def
        get_receive_count_def compute_backoff_seconds_def CrawlRequest_model_validate_def
        ex_lib_def ex_cfg_def ex_world_fail_def ex_msg_def ex_body_def ex_body_retried_def)

section \<open>Retry budget\<close>

text \<open>
  C3 (amended). When the crawl of a dispatched message fails and the incoming
  \<^verbatim>\<open>retry_count\<close> is at least 1, the handler raises the non-retryable error and the
  consumer issues no call at all: nothing is sent, the message is not deleted and
  its visibility is left alone. When the incoming \<^verbatim>\<open>retry_count\<close> is 0 or absent
  (or negative), the handler raises the retryable error and exactly one message
  is put on the queue, provided neither the delete of the original nor the send
  raises. If the delete raises, no send is issued; if the send raises, the one
  send that is issued puts nothing on the queue; in both cases the last call is
  the extension of the original's visibility.
\<close>

theorem C3_retry_budget:
  assumes "json_loads L (Body msg) = Some (JObj body)"
      and "CrawlRequest_model_validate L (JObj body)"
      and "hash_key (envelope_key body msg) = Some k" and "k \<notin> seen"
      and "dict_get body ''type'' = JStr ''crawl-single-url''"
      and "crawl_attempt L cfg w body = Some e" and "isinstance_Exception e"
      and "retry_count_of body = Some n"
  shows "(1 \<le> n \<longrightarrow>
            handle_crawl_single_url L cfg w body = (Some NonRetryableError, body)
          \<and> process_message L cfg w msg seen = (None, insert k seen, [Handled k]))
       \<and> (n < 1 \<longrightarrow>
            fst (handle_crawl_single_url L cfg w body) = Some RetryableError
          \<and> length (emitted w (snd (snd (process_message L cfg w msg seen))))
              = (if delete_raises w \<or> send_raises w then 0 else 1)
          \<and> length (filter is_send (snd (snd (process_message L cfg w msg seen))))
              = (if delete_raises w then 0 else 1)
          \<and> (delete_raises w \<or> send_raises w \<longrightarrow>
                last (snd (snd (process_message L cfg w msg seen)))
                  = ChangeMessageVisibility (ReceiptHandle msg)
                      (compute_backoff_seconds (get_receive_count L msg))))"
proof (intro conjI impI)
  assume n: "1 \<le> n"
  show h: "handle_crawl_single_url L cfg w body = (Some NonRetryableError, body)"
    by (rule handler_non_retryable[OF assms(6-8) n])
  show "process_message L cfg w msg seen = (None, insert k seen, [Handled k])"
    unfolding process_message_fresh[OF assms(1-5)] dispatch_non_retryable[OF h] by simp
next
  assume n: "n < 1"
  note h = handler_retryable[OF assms(6-8) n]
  show "fst (handle_crawl_single_url L cfg w body) = Some RetryableError"
    by (simp add: h)
  show "length (emitted w (snd (snd (process_message L cfg w msg seen))))
              = (if delete_raises w \<or> send_raises w then 0 else 1)"
    unfolding process_message_fresh[OF assms(1-5)] snd_conv dispatch_retryable[OF h] requeue_events
      emitted_def
    by simp
  show "length (filter is_send (snd (snd (process_message L cfg w msg seen))))
              = (if delete_raises w then 0 else 1)"
    unfolding process_message_fresh[OF assms(1-5)] snd_conv dispatch_retryable[OF h] requeue_events
    by simp
next
  assume n: "n < 1" and f: "delete_raises w \<or> send_raises w"
  note h = handler_retryable[OF assms(6-8) n]
  show "last (snd (snd (process_message L cfg w msg seen)))
          = ChangeMessageVisibility (ReceiptHandle msg)
              (compute_backoff_seconds (get_receive_count L msg))"
    unfolding process_message_fresh[OF assms(1-5)] snd_conv dispatch_retryable[OF h] requeue_events
    using f by auto
qed

theorem C3_retry_budget_witness:
  "process_message ex_lib ex_cfg ex_world_fail ex_msg_retried {} =
     (None, {KStr ''x''}, [Handled (KStr ''x'')])
   \<and> length (emitted ex_world_fail
               (snd (snd (process_message ex_lib ex_cfg ex_world_fail ex_msg {})))) = 1
   \<and> length (emitted ex_world_send_fails
               (snd (snd (process_message ex_lib ex_cfg ex_world_send_fails ex_msg {})))) = 0"
proof -
  have e: "KStr ''x'' \<notin> {}" "isinstance_Exception CrawlFailure" by simp_all
  have r: "json_loads ex_lib (Body ex_msg_retried) = Some (JObj ex_body_retried)"
          "CrawlRequest_model_validate ex_lib (JObj ex_body_retried)"
          "hash_key (envelope_key ex_body_retried ex_msg_retried) = Some (KStr ''x'')"
          "dict_get ex_body_retried ''type'' = JStr ''crawl-single-url''"
          "crawl_attempt ex_lib ex_cfg ex_world_fail ex_body_retried = Some CrawlFailure"
          "retry_count_of ex_body_retried = Some 1"
    by (simp_all add: ex_lib_def ex_cfg_def ex_world_fail_def ex_msg_retried_def ex_body_retried_def
          dict_get_def CrawlRequest_model_validate_def envelope_key_def retry_count_of_def
          crawl_attempt_def)
  have w: "\<not> delete_raises ex_world_fail" "\<not> send_raises ex_world_fail"
          "send_raises ex_world_send_fails"
    by (simp_all add: ex_world_fail_def ex_world_send_fails_def)
  from C3_retry_budget[OF r(1-3) e(1) r(4) r(5) e(2) r(6)]
       C3_retry_budget[OF ex_msg_facts(1-3) e(1) ex_msg_facts(4) ex_crawl_fails(1) e(2)
         ex_msg_facts(5)]
       C3_retry_budget[OF ex_msg_facts(1-3) e(1) ex_msg_facts(4) ex_crawl_fails(3) e(2)
         ex_msg_facts(5)] w
  show ?thesis by simp
qed

text \<open>
  Two failures with incoming \<^verbatim>\<open>retry_count\<close> 0 (absent) for which the handler raised
  the retryable error, yet no message is put on the queue. In the first the
  delete of the original raises, so no send is issued; in the second the delete
  succeeds and the send raises. Both end with the extension of the visibility.
\<close>

theorem C3_no_reemission_counterexample:
  "retry_count_of ex_body = Some 0
   \<and> json_loads ex_lib (Body ex_msg) = Some (JObj ex_body)
   \<and> fst (handle_crawl_single_url ex_lib ex_cfg ex_world_delete_fails ex_body) = Some RetryableError
   \<and> process_message ex_lib ex_cfg ex_world_delete_fails ex_msg {} =
       (None, {KStr ''x''},
        [Handled (KStr ''x''), DeleteMessage ''rh1'', ChangeMessageVisibility ''rh1'' (PyInt 2)])
   \<and> fst (handle_crawl_single_url ex_lib ex_cfg ex_world_send_fails ex_body) = Some RetryableError
   \<and> send_raises ex_world_send_fails
   \<and> snd (snd (process_message ex_lib ex_cfg ex_world_send_fails ex_msg {})) =
        [Handled (KStr ''x''), DeleteMessage ''rh1'',
         SendMessage (json_dumps ex_lib (JObj ex_body_retried)) [] (PyInt 2),
         ChangeMessageVisibility ''rh1'' (PyInt 2)]
   \<and> emitted ex_world_send_fails
         (snd (snd (process_message ex_lib ex_cfg ex_world_send_fails ex_msg {}))) = []"
  by (simp add: process_message_def dispatch_def handle_crawl_single_url_def crawl_attempt_def
        requeue_def fall_back_def claim_def envelope_key_def dict_get_def retry_count_of_def
        get_receive_count_def compute_backoff_seconds_def CrawlRequest_model_validate_def
        emitted_def Let_def ex_lib_def ex_cfg_def ex_world_delete_fails_def
        ex_world_send_fails_def ex_msg_def ex_body_def ex_body_retried_def)

section \<open>Re-emissions meet the idempotency set\<close>

text \<open>
  C9 (amended). Let the key of a dispatched message come from its body (a non-empty
  \<^verbatim>\<open>id\<close>, or else a truthy \<^verbatim>\<open>event_id\<close>) and let the message fail retryably, so that
  its body is re-emitted with the same \<^verbatim>\<open>id\<close> and \<^verbatim>\<open>event_id\<close>. Whenever a message
  carrying the re-emitted body is later processed in the same process (the
  idempotency set only grows), under any behaviour of the outside, the consumer
  only issues the delete of that message: the handler is not invoked again.
\<close>

theorem C9_reemission_never_reprocessed:
  assumes "json_loads L (Body msg) = Some (JObj body)"
      and "CrawlRequest_model_validate L (JObj body)"
      and "truthy (dict_get body ''id'') \<or> truthy (dict_get body ''event_id'')"
      and "hash_key (envelope_key body msg) = Some k" and "k \<notin> seen"
      and "dict_get body ''type'' = JStr ''crawl-single-url''"
      and "crawl_attempt L cfg w body = Some e" and "isinstance_Exception e"
      and "retry_count_of body = Some n" and "n < 1"
      and "Body msg2 = json_dumps L (JObj (AList.update ''retry'' (JBool True)
                                             (AList.update ''retry_count'' (JInt (n + 1)) body)))"
      and "json_loads L (Body msg2) = Some (JObj (AList.update ''retry'' (JBool True)
                                             (AList.update ''retry_count'' (JInt (n + 1)) body)))"
      and "fst (snd (process_message L cfg w msg seen)) \<subseteq> seen2"
  shows "(\<not> delete_raises w \<longrightarrow>
            SendMessage (Body msg2) (case MessageAttributes msg of None \<Rightarrow> [] | Some a \<Rightarrow> a)
              (compute_backoff_seconds (get_receive_count L msg))
              \<in> set (snd (snd (process_message L cfg w msg seen))))
       \<and> process_message L cfg w2 msg2 seen2 =
           (if delete_raises w2 then Some ClientError else None, seen2,
            [DeleteMessage (ReceiptHandle msg2)])"
proof -
  let ?body' = "AList.update ''retry'' (JBool True) (AList.update ''retry_count'' (JInt (n + 1)) body)"
  have k2: "hash_key (envelope_key ?body' msg2) = Some k"
    unfolding envelope_key_retried[OF assms(3), of "JInt (n + 1)" msg2 msg] by (rule assms(4))
  note pm = process_message_fresh[OF assms(1,2,4,5,6), of cfg w]
  have "k \<in> fst (snd (process_message L cfg w msg seen))" by (simp add: pm)
  with assms(13) have in2: "k \<in> seen2" by blast
  note h = handler_retryable[OF assms(7-10)]
  have sent: "\<not> delete_raises w \<Longrightarrow>
            SendMessage (Body msg2) (case MessageAttributes msg of None \<Rightarrow> [] | Some a \<Rightarrow> a)
              (compute_backoff_seconds (get_receive_count L msg))
              \<in> set (snd (snd (process_message L cfg w msg seen)))"
    unfolding pm snd_conv dispatch_retryable[OF h] requeue_events assms(11) by simp
  have dropped: "process_message L cfg w2 msg2 seen2 =
           (if delete_raises w2 then Some ClientError else None, seen2,
            [DeleteMessage (ReceiptHandle msg2)])"
    by (rule process_message_duplicate[OF assms(12) validate_retried[OF assms(2)] k2 in2])
  from sent dropped show ?thesis by blast
qed

theorem C9_reemission_never_reprocessed_witness:
  "SendMessage (Body ex_msg_retried) [] (PyInt 2)
     \<in> set (snd (snd (process_message ex_lib ex_cfg ex_world_fail ex_msg {})))
   \<and> fst (snd (process_message ex_lib ex_cfg ex_world_fail ex_msg {})) \<subseteq> {KStr ''x''}
   \<and> process_message ex_lib ex_cfg ex_world_ok ex_msg_retried {KStr ''x''} =
       (None, {KStr ''x''}, [DeleteMessage ''rh2''])"
proof -
  have e: "truthy (dict_get ex_body ''id'') \<or> truthy (dict_get ex_body ''event_id'')"
          "KStr ''x'' \<notin> {}" "isinstance_Exception CrawlFailure" "(0::int) < 1"
    by (simp_all add: ex_msg_facts(9))
  have b: "Body ex_msg_retried = json_dumps ex_lib (JObj (AList.update ''retry'' (JBool True)
             (AList.update ''retry_count'' (JInt (0 + 1)) ex_body)))"
    unfolding ex_msg_facts(6) by (simp add: ex_lib_def ex_msg_retried_def)
  have l: "json_loads ex_lib (Body ex_msg_retried) = Some (JObj (AList.update ''retry'' (JBool True)
             (AList.update ''retry_count'' (JInt (0 + 1)) ex_body)))"
    unfolding ex_msg_facts(6) by (simp add: ex_lib_def ex_msg_retried_def)
  have s: "fst (snd (process_message ex_lib ex_cfg ex_world_fail ex_msg {})) \<subseteq> {KStr ''x''}"
    unfolding process_message_fresh[OF ex_msg_facts(1-3) e(2) ex_msg_facts(4)] by simp
  have m: "MessageAttributes ex_msg = None" "Attributes ex_msg = None"
          "ReceiptHandle ex_msg_retried = ''rh2''"
    by (simp_all add: ex_msg_def ex_msg_retried_def)
  have w: "\<not> delete_raises ex_world_fail" "\<not> delete_raises ex_world_ok"
    by (simp_all add: ex_world_fail_def ex_world_ok_def)
  have d: "compute_backoff_seconds (get_receive_count ex_lib ex_msg) = PyInt 2"
    by (simp add: get_receive_count_def compute_backoff_seconds_def m)
  from C9_reemission_never_reprocessed[OF ex_msg_facts(1,2) e(1) ex_msg_facts(3) e(2)
         ex_msg_facts(4) ex_crawl_fails(1) e(3) ex_msg_facts(5) e(4) b l s, of ex_world_ok] s
  show ?thesis by (simp add: m w d)
qed

text \<open>
  An accepted envelope with an empty \<^verbatim>\<open>id\<close> and no \<^verbatim>\<open>event_id\<close>: its key is the
  provider message id \<^verbatim>\<open>m4\<close>. The crawl fails at \<^verbatim>\<open>retry_count\<close> 0, the body is
  re-emitted and comes back as a new message with the provider message id \<^verbatim>\<open>m5\<close>.
  That key is not in the idempotency set, so the handler is invoked again (and
  this time the crawl succeeds and the message is acknowledged).
\<close>

theorem C9_reprocessed_counterexample:
  "json_loads ex_lib (Body ex_msg_noid) = Some (JObj ex_body_noid)
   \<and> CrawlRequest_model_validate ex_lib (JObj ex_body_noid)
   \<and> envelope_key ex_body_noid ex_msg_noid = JStr ''m4''
   \<and> Body ex_msg_noid_retried
       = json_dumps ex_lib (JObj (AList.update ''retry'' (JBool True)
                                   (AList.update ''retry_count'' (JInt 1) ex_body_noid)))
   \<and> consume ex_lib ex_cfg [(ex_world_fail, ex_msg_noid), (ex_world_ok, ex_msg_noid_retried)] {}
       = ({KStr ''m4'', KStr ''m5''},
          [Handled (KStr ''m4''), DeleteMessage ''rh4'',
           SendMessage (Body ex_msg_noid_retried) [] (PyInt 2),
           Handled (KStr ''m5''), DeleteMessage ''rh5''])"
  by (simp add: process_message_def dispatch_def handle_crawl_single_url_def crawl_attempt_def
        requeue_def fall_back_def claim_def envelope_key_def dict_get_def retry_count_of_def
        get_receive_count_def compute_backoff_seconds_def CrawlRequest_model_validate_def
        ex_lib_def ex_cfg_def ex_world_fail_def ex_world_ok_def ex_msg_noid_def
        ex_msg_noid_retried_def ex_body_noid_def ex_body_noid_retried_def ex_body_retried_def
        Let_def insert_commute)

section \<open>Dispatch slots and the single-flight gate\<close>

text \<open>
  C4. Under every schedule of dispatches, gate entries, gate exits and task ends,
  and for every size of the consumer's concurrency gate, at most one task is inside
  \<^verbatim>\<open>async with crawl_semaphore\<close>, where \<^verbatim>\<open>crawl_urls\<close> runs; the gate's value and the
  number of such tasks add up to 1.
\<close>

theorem C4_single_flight_extraction:
  "extracting (run_schedule c evs) \<le> 1
   \<and> crawl_semaphore (run_schedule c evs) + extracting (run_schedule c evs) = 1"
  using run_schedule_inv[of c evs] by simp

text \<open>
  C10. \<^verbatim>\<open>_handle_message\<close> raises the value of \<^verbatim>\<open>_sem\<close> by exactly one, however the
  handler and the heartbeat end. No exception that derives from \<^verbatim>\<open>Exception\<close>
  leaves it: whatever leaves is a cancellation or an interrupt, and nothing leaves
  when the handler and the heartbeat raised only exceptions deriving from
  \<^verbatim>\<open>Exception\<close>. Under every schedule the free slots and the tasks in flight add up
  to the configured concurrency, so no slot is lost.
\<close>

theorem C10_slot_released_exactly_once:
  "snd (handle_message c hb outcome v) = v + 1
   \<and> (\<forall>e. fst (handle_message c hb outcome v) = Some e \<longrightarrow> \<not> isinstance_Exception e)
   \<and> ((\<forall>e. outcome = Some e \<longrightarrow> isinstance_Exception e)
        \<and> (\<forall>e. hb = HbFailed e \<longrightarrow> isinstance_Exception e) \<longrightarrow>
        fst (handle_message c hb outcome v) = None)
   \<and> sem (run_schedule c evs) + in_flight (run_schedule c evs) = concurrency c"
proof (intro conjI)
  show "snd (handle_message c hb outcome v) = v + 1"
    by (simp add: handle_message_def Let_def)
  show "\<forall>e. fst (handle_message c hb outcome v) = Some e \<longrightarrow> \<not> isinstance_Exception e"
    by (auto simp: handle_message_def Let_def split: option.splits heartbeat.splits if_splits)
  show "(\<forall>e. outcome = Some e \<longrightarrow> isinstance_Exception e)
        \<and> (\<forall>e. hb = HbFailed e \<longrightarrow> isinstance_Exception e) \<longrightarrow>
        fst (handle_message c hb outcome v) = None"
    by (auto simp: handle_message_def Let_def split: option.splits heartbeat.splits if_splits)
  show "sem (run_schedule c evs) + in_flight (run_schedule c evs) = concurrency c"
    using run_schedule_inv[of c evs] by simp
qed

theorem C10_slot_released_exactly_once_witness:
  "handle_message ex_consumer (HbFailed ClientError) (Some TypeError) 4 = (None, 5)
   \<and> handle_message ex_consumer HbPending (Some CancelledError) 4 = (Some CancelledError, 5)
   \<and> sem (run_schedule ex_consumer [Dispatch, Dispatch, EnterGate 0, Finish 1 HbPending None])
     + in_flight (run_schedule ex_consumer [Dispatch, Dispatch, EnterGate 0, Finish 1 HbPending None])
     = 5"
proof -
  have a: "\<forall>e. Some TypeError = Some e \<longrightarrow> isinstance_Exception e" by simp
  have b: "\<forall>e. HbFailed ClientError = HbFailed e \<longrightarrow> isinstance_Exception e" by simp
  have c: "fst (handle_message ex_consumer HbPending (Some CancelledError) 4) = Some CancelledError"
    by (simp add: handle_message_def heartbeat_started_def ex_consumer_def)
  from C10_slot_released_exactly_once
         [of ex_consumer "HbFailed ClientError" "Some TypeError" 4
             "[Dispatch, Dispatch, EnterGate 0, Finish 1 HbPending None]"]
       C10_slot_released_exactly_once
         [of ex_consumer HbPending "Some CancelledError" 4 "[]"] a b c
  show ?thesis by (auto simp: prod_eq_iff ex_consumer_def)
qed

section \<open>Layout of the crawl outputs\<close>

text \<open>
  C6 (amended). Let the crawl handler process a payload with the id \<open>job_id\<close> and the
  URL \<open>url\<close>, let \<open>u = str(crawl_task.url)\<close> be the URL it passes to the crawler, and
  let the MD5 digest of \<open>u\<close> be 32 hexadecimal characters. Everything is written
  only after validation and for a successful result. Every object key the crawler
  uploads to is \<^verbatim>\<open>{base}/{job_id}/{YYYY}/{MM}/{DD}/{hash8}/{file}\<close>, where \<open>base\<close> is the
  configured save location, \<open>hash8\<close> is the last 8 characters of the digest, the
  month and the day are printed with two digits and the year in decimal. Every
  local file it writes ends in \<^verbatim>\<open>/{hash8}/{file}\<close>, and has that same layout when the
  save location is a path that \<^verbatim>\<open>pathlib\<close> prints unchanged.
\<close>

theorem C6_output_path_layout:
  assumes "dict_get payload ''id'' = JStr job_id" and "dict_get payload ''url'' = JStr url"
      and "u = HttpUrl_str L url"
      and "hexdigest_wf (md5_hexdigest L u)"
      and "out \<in> set (handle_crawl_single_url_outputs L cfg w today r payload)"
  shows "CrawlRequest_model_validate L (JObj payload) \<and> success r
       \<and> (\<forall>k. out = S3Object k \<longrightarrow>
            (\<exists>name. k = crawl_save_location cfg @ ''/'' @ job_id @ ''/'' @ str_nat (year today)
                          @ ''/'' @ fmt_02d (month today) @ ''/'' @ fmt_02d (day today)
                          @ ''/'' @ drop 24 (md5_hexdigest L u) @ ''/'' @ name))
       \<and> (\<forall>p. out = LocalFile p \<longrightarrow>
            (\<exists>pre name. p = pre @ ''/'' @ drop 24 (md5_hexdigest L u) @ ''/'' @ name))
       \<and> (\<forall>p. out = LocalFile p
              \<and> path_str (Path (crawl_save_location cfg @ ''/'' @ job_id))
                  = crawl_save_location cfg @ ''/'' @ job_id
              \<and> parts (Path (crawl_save_location cfg @ ''/'' @ job_id)) \<noteq> [] \<longrightarrow>
            (\<exists>name. p = crawl_save_location cfg @ ''/'' @ job_id @ ''/'' @ str_nat (year today)
                          @ ''/'' @ fmt_02d (month today) @ ''/'' @ fmt_02d (day today)
                          @ ''/'' @ drop 24 (md5_hexdigest L u) @ ''/'' @ name))
       \<and> length (drop 24 (md5_hexdigest L u)) = 8
       \<and> (month today < 100 \<longrightarrow> length (fmt_02d (month today)) = 2)
       \<and> (day today < 100 \<longrightarrow> length (fmt_02d (day today)) = 2)"
proof -
  let ?sl = "crawl_save_location cfg @ ''/'' @ job_id"
  note h8 = hash8_component[OF assms(4)]
  note hm = handle_crawl_single_url_outputs_mem[OF assms(1,2,5)]
  have mem: "out \<in> set (crawl_outputs L cfg today (Some ?sl) u r)"
    unfolding assms(3) by (rule hm(1))
  from crawl_outputs_forms[OF mem]
  obtain name where nm: "name \<in> {''article.json'', ''article.txt'', ''article.pdf'', ''raw_extracted.txt''}"
    and form: "out = LocalFile (local_file L today (Some ?sl) u name)
             \<or> out = S3Object (s3_key L today (Some ?sl) u name)"
    by blast
  from nm have comp: "component name" using file_names_component by auto
  have s3: "\<forall>k. out = S3Object k \<longrightarrow>
            (\<exists>name. k = ?sl @ ''/'' @ str_nat (year today)
                          @ ''/'' @ fmt_02d (month today) @ ''/'' @ fmt_02d (day today)
                          @ ''/'' @ drop 24 (md5_hexdigest L u) @ ''/'' @ name)"
    using form by (auto simp: s3_key_def relative_path_def h8(3))
  have loc: "\<forall>p. out = LocalFile p \<longrightarrow>
            (\<exists>pre name. p = pre @ ''/'' @ drop 24 (md5_hexdigest L u) @ ''/'' @ name)"
    using form local_file_ends[OF assms(4) comp, of today "Some ?sl"] by (auto simp: h8(3))
  have exact: "\<forall>p. out = LocalFile p \<and> path_str (Path ?sl) = ?sl \<and> parts (Path ?sl) \<noteq> [] \<longrightarrow>
            (\<exists>name. p = ?sl @ ''/'' @ str_nat (year today)
                          @ ''/'' @ fmt_02d (month today) @ ''/'' @ fmt_02d (day today)
                          @ ''/'' @ drop 24 (md5_hexdigest L u) @ ''/'' @ name)"
  proof (intro allI impI)
    fix p
    assume a: "out = LocalFile p \<and> path_str (Path ?sl) = ?sl \<and> parts (Path ?sl) \<noteq> []"
    then have "p = local_file L today (Some ?sl) u name" using form by auto
    also have "\<dots> = ?sl @ ''/'' @ relative_path L today u @ ''/'' @ name"
      using local_file_exact[OF assms(4) comp, of ?sl today] a by blast
    finally show "\<exists>name. p = ?sl @ ''/'' @ str_nat (year today)
                          @ ''/'' @ fmt_02d (month today) @ ''/'' @ fmt_02d (day today)
                          @ ''/'' @ drop 24 (md5_hexdigest L u) @ ''/'' @ name"
      by (auto simp: relative_path_def h8(3))
  qed
  have len: "length (drop 24 (md5_hexdigest L u)) = 8" using h8(2,3) by simp
  from hm(2,4) s3 loc exact len show ?thesis by (simp add: fmt_02d_length)
qed

theorem C6_output_path_layout_witness:
  "hexdigest_wf (md5_hexdigest ex_lib ''https://e.com/a'')
   \<and> handle_crawl_single_url_outputs ex_lib ex_cfg ex_world_ok ex_date ex_result ex_body
      = [LocalFile ''crawled/x/2025/01/02/9d0a7e41/article.json'',
         S3Object ''crawled/x/2025/01/02/9d0a7e41/article.json'',
         LocalFile ''crawled/x/2025/01/02/9d0a7e41/article.txt'',
         S3Object ''crawled/x/2025/01/02/9d0a7e41/article.txt'']
   \<and> length (drop 24 (md5_hexdigest ex_lib ''https://e.com/a'')) = 8
   \<and> length (fmt_02d (month ex_date)) = 2"
proof -
  have wf: "hexdigest_wf (md5_hexdigest ex_lib ''https://e.com/a'')"
    by (simp add: hexdigest_wf_def ex_lib_def)
  have p: "dict_get ex_body ''id'' = JStr ''x''" "dict_get ex_body ''url'' = JStr ''https://e.com/a''"
          "''https://e.com/a'' = HttpUrl_str ex_lib ''https://e.com/a''"
    by (simp_all add: ex_body_def dict_get_def ex_lib_def)
  have outs: "handle_crawl_single_url_outputs ex_lib ex_cfg ex_world_ok ex_date ex_result ex_body
      = [LocalFile ''crawled/x/2025/01/02/9d0a7e41/article.json'',
         S3Object ''crawled/x/2025/01/02/9d0a7e41/article.json'',
         LocalFile ''crawled/x/2025/01/02/9d0a7e41/article.txt'',
         S3Object ''crawled/x/2025/01/02/9d0a7e41/article.txt'']"
    by (simp add: handle_crawl_single_url_outputs_def CrawlRequest_model_validate_def
          crawl_outputs_def local_file_def s3_key_def save_dir_def joinpath_def Path_def
          path_str_def relative_path_def url_hash8_def fmt_02d_def str_nat.simps digit_def
          dict_get_def ex_lib_def ex_cfg_def ex_date_def ex_result_def ex_body_def ex_world_ok_def)
  have mem: "S3Object ''crawled/x/2025/01/02/9d0a7e41/article.json''
               \<in> set (handle_crawl_single_url_outputs ex_lib ex_cfg ex_world_ok ex_date ex_result
                        ex_body)"
    unfolding outs by simp
  have m: "month ex_date < 100" by (simp add: ex_date_def)
  from C6_output_path_layout[OF p wf mem] m
  have "length (drop 24 (md5_hexdigest ex_lib ''https://e.com/a'')) = 8"
       "length (fmt_02d (month ex_date)) = 2"
    by blast+
  with wf outs show ?thesis by blast
qed

text \<open>
  The job the RSS scheduler builds for the task \<^verbatim>\<open>task\<close> and the link
  \<^verbatim>\<open>https://e.com/a\<close> has the id \<^verbatim>\<open>task-9d0a7e41\<close>, so the handler writes its outputs
  under \<^verbatim>\<open>crawled/task-9d0a7e41/\<close> and not under \<^verbatim>\<open>crawled/task/\<close>.
\<close>

theorem C6_scheduler_job_counterexample:
  "task_id ex_task = ''task''
   \<and> crawl_save_location ex_cfg = ''crawled''
   \<and> dict_get (crawl_request_fields ex_lib ex_task [] ''https://e.com/a'') ''id''
       = JStr ''task-9d0a7e41''
   \<and> handle_crawl_single_url_outputs ex_lib ex_cfg ex_world_ok ex_date ex_result
        (crawl_request_fields ex_lib ex_task [] ''https://e.com/a'')
      = [LocalFile ''crawled/task-9d0a7e41/2025/01/02/9d0a7e41/article.json'',
         S3Object ''crawled/task-9d0a7e41/2025/01/02/9d0a7e41/article.json'',
         LocalFile ''crawled/task-9d0a7e41/2025/01/02/9d0a7e41/article.txt'',
         S3Object ''crawled/task-9d0a7e41/2025/01/02/9d0a7e41/article.txt'']"
  by (simp add: handle_crawl_single_url_outputs_def CrawlRequest_model_validate_def
        crawl_request_fields_def crawl_outputs_def local_file_def s3_key_def save_dir_def
        joinpath_def Path_def path_str_def relative_path_def url_hash8_def fmt_02d_def
        str_nat.simps digit_def dict_get_def ex_lib_def ex_cfg_def ex_date_def ex_result_def
        ex_task_def ex_world_ok_def)
section \<open>Processed-URL markers\<close>





text \<open>
  A feed that lists one link twice, with tracking enabled and every call
  succeeding: the set of processed URLs is read once before the loop (lines
  191--193) and is not updated inside it, so the second entry is not recognised
  and the link is enqueued twice in one run, although its marker has been written
  after the first send.
\<close>

lemma duplicate_link_enqueued_twice:
  "rss_track_processed_urls ex_cfg
   \<and> task_links ex_lib ex_feed_dup ex_task = [''https://e.com/a'', ''https://e.com/a'']
   \<and> fst (process_rss_feeds ex_lib ex_cfg ex_rss_ok ex_feed_dup [ex_task] ex_rss_start) = 2
   \<and> map (\<lambda>m. (fst m, fst (snd m)))
         (queue (snd (process_rss_feeds ex_lib ex_cfg ex_rss_ok ex_feed_dup [ex_task] ex_rss_start)))
       = [(''task'', ''https://e.com/a''), (''task'', ''https://e.com/a'')]
   \<and> tbl_of (snd (process_rss_feeds ex_lib ex_cfg ex_rss_ok ex_feed_dup [ex_task] ex_rss_start))
       = [((''task'', ''5f0c1a9e2b7d4c3a8e6f1b2c9d0a7e41''), ''https://e.com/a'')]"
  by (simp add: process_rss_feeds_def task_items_def task_links_def config_of_def
        parse_rss_feed_def max_items_of_def dict_get_def submit_rss_items_to_queue_def
        get_processed_urls_def marked_def item_get_def link_field_of_def
        mark_url_as_processed_def tbl_of_def CrawlRequest_model_validate_def
        crawl_request_fields_def ex_lib_def ex_cfg_def ex_rss_ok_def ex_feed_dup_def ex_task_def
        ex_rss_start_def numeral_2_eq_2)
end
